theory Spec2Isabelle
  imports Complex_Main "HOL-Library.AList"
begin

section \<open>Kakurasu: data model\<close>

text \<open>
  The embedding follows \<^verbatim>\<open>src/src/index.js\<close>. Names are the source's; a leading
  underscore of a private method is dropped (\<^verbatim>\<open>_applyMove\<close> is \<open>applyMove\<close>).

  \<^item> The status codes 0, 1, 2 are the constants \<^verbatim>\<open>STATUS_CLEAR\<close>,
    \<^verbatim>\<open>STATUS_ACTIVE\<close>, \<^verbatim>\<open>STATUS_FLAGGED\<close>.
  \<^item> \<open>FieldState\<close> is the JSON object held in \<^verbatim>\<open>KakurasuField.state\<close>; an absent
    \<^verbatim>\<open>readOnly\<close> or \<^verbatim>\<open>solution\<close> property is falsy and is \<open>False\<close> here.
  \<^item> A field key \<^verbatim>\<open>row + "-" + column\<close> is the pair \<open>(row, column)\<close>: its first
    component is what \<^verbatim>\<open>fieldKey.split("-")[0]\<close> parses to, its second what
    \<^verbatim>\<open>split("-")[1]\<close> parses to.
  \<^item> The object \<^verbatim>\<open>state.fields\<close> is an association list in insertion order (the
    order of \<^verbatim>\<open>Object.keys\<close>); assigning to a key is \<open>AList.update\<close>.
  \<^item> The record field \<open>stateFields\<close> is \<^verbatim>\<open>state.fields\<close>; \<open>contraintsRows\<close> and
    \<open>contraintsColumns\<close> are \<^verbatim>\<open>meta.contraints.rows\<close> and \<^verbatim>\<open>meta.contraints.columns\<close>.
  \<^item> \<^verbatim>\<open>currentMoveIndex\<close> is \<open>None\<close> for \<^verbatim>\<open>null\<close> and \<open>Some i\<close> for the number i.
  \<^item> A \<^verbatim>\<open>TypeError\<close> (a property read on \<^verbatim>\<open>undefined\<close>) is the value
    \<open>Inl TypeError\<close>. A method of the game returns its outcome together with the game
    as the call leaves it, also when it throws.
\<close>

datatype Status = STATUS_CLEAR | STATUS_ACTIVE | STATUS_FLAGGED

datatype error = TypeError

record FieldState =
  status :: Status
  readOnly :: bool
  solution :: bool

text \<open>
  A \<^verbatim>\<open>KakurasuField\<close> object as a caller of \<^verbatim>\<open>getField\<close> sees it: its state and
  the \<^verbatim>\<open>row\<close> and \<^verbatim>\<open>column\<close> attributes that \<^verbatim>\<open>getField\<close> has just written on it.
  These two attributes are not part of \<^verbatim>\<open>this.state\<close> and every read of them in the
  source follows a \<^verbatim>\<open>getField\<close> of the same object, so they travel with the returned
  value and are not stored.
\<close>

datatype KakurasuField = KakurasuField (state: FieldState) (fieldRow: nat) (fieldColumn: nat)

type_synonym fieldKey = "nat \<times> nat"

record Move =
  row :: nat
  column :: nat
  previousStatus :: Status
  nextStatus :: Status

record Kakurasu =
  moveHistory :: "Move list"
  currentMoveIndex :: "int option"
  stateFields :: "(fieldKey \<times> FieldState) list"
  amountRows :: nat
  amountColumns :: nat
  contraintsRows :: "(nat \<times> nat) list"
  contraintsColumns :: "(nat \<times> nat) list"

section \<open>KakurasuField\<close>

definition getStatus :: "KakurasuField \<Rightarrow> Status" where
  "getStatus field = status (state field)"

definition isClear :: "KakurasuField \<Rightarrow> bool" where
  "isClear field = (status (state field) = STATUS_CLEAR)"

definition isActive :: "KakurasuField \<Rightarrow> bool" where
  "isActive field = (status (state field) = STATUS_ACTIVE)"

definition isFlagged :: "KakurasuField \<Rightarrow> bool" where
  "isFlagged field = (status (state field) = STATUS_FLAGGED)"

definition isReadOnly :: "KakurasuField \<Rightarrow> bool" where
  "isReadOnly field = readOnly (state field)"

definition isSolution :: "KakurasuField \<Rightarrow> bool" where
  "isSolution field = solution (state field)"

text \<open>\<^verbatim>\<open>setStatus\<close>, \<^verbatim>\<open>setIsSolution\<close> and \<^verbatim>\<open>_reset\<close> on the state object.\<close>

definition setStatus :: "FieldState \<Rightarrow> Status \<Rightarrow> FieldState" where
  "setStatus st s = st\<lparr>status := s\<rparr>"

definition setIsSolution :: "FieldState \<Rightarrow> bool \<Rightarrow> FieldState" where
  "setIsSolution st b = st\<lparr>solution := b\<rparr>"

definition reset :: "FieldState \<Rightarrow> FieldState" where
  "reset st = (if \<not> readOnly st then setStatus st STATUS_CLEAR else st)"

section \<open>Board index and move history\<close>

definition getFieldKey :: "nat \<Rightarrow> nat \<Rightarrow> fieldKey" where
  "getFieldKey r c = (r, c)"

definition getField :: "Kakurasu \<Rightarrow> nat \<Rightarrow> nat \<Rightarrow> error + KakurasuField" where
  "getField g r c =
     (case map_of (stateFields g) (getFieldKey r c) of
        None \<Rightarrow> Inl TypeError
      | Some st \<Rightarrow> Inr (KakurasuField st r c))"

definition getAmountMoves :: "Kakurasu \<Rightarrow> nat" where
  "getAmountMoves g = length (moveHistory g)"

text \<open>
  \<^verbatim>\<open>isNaN(parseInt(copy))\<close> is true for \<^verbatim>\<open>null\<close> and false for an integer.
\<close>

definition calcNextCurrentMoveIndex :: "Kakurasu \<Rightarrow> int \<Rightarrow> int option" where
  "calcNextCurrentMoveIndex g diff =
     (case currentMoveIndex g of
        None \<Rightarrow>
          (if diff > 0 then (if diff - 1 > 0 then Some (diff - 1) else Some 0) else None)
      | Some copy \<Rightarrow> (if copy + diff < 0 then None else Some (copy + diff)))"

definition changeCurrentMoveIndex :: "Kakurasu \<Rightarrow> int \<Rightarrow> Kakurasu" where
  "changeCurrentMoveIndex g diff = g\<lparr>currentMoveIndex := calcNextCurrentMoveIndex g diff\<rparr>"

text \<open>
  \<^verbatim>\<open>Array.prototype.slice(0, end)\<close>: a negative \<^verbatim>\<open>end\<close> counts from the end of the
  array, and the bounds are cut to the array.
\<close>

definition slice0 :: "'a list \<Rightarrow> int \<Rightarrow> 'a list" where
  "slice0 xs e = take (nat (if e < 0 then int (length xs) + e else e)) xs"

definition deleteFutureMoveHistory :: "Kakurasu \<Rightarrow> Kakurasu" where
  "deleteFutureMoveHistory g =
     (case currentMoveIndex g of
        Some currentIndex \<Rightarrow> g\<lparr>moveHistory := slice0 (moveHistory g) (currentIndex + 1)\<rparr>
      | None \<Rightarrow> g\<lparr>moveHistory := []\<rparr>)"

definition addMoveToHistory :: "Kakurasu \<Rightarrow> Move \<Rightarrow> Kakurasu" where
  "addMoveToHistory g move =
     (let g1 = deleteFutureMoveHistory g;
          g2 = g1\<lparr>moveHistory := moveHistory g1 @ [move]\<rparr>
      in changeCurrentMoveIndex g2 1)"

definition applyMove :: "Kakurasu \<Rightarrow> Move \<Rightarrow> (error + bool) \<times> Kakurasu" where
  "applyMove g move =
     (case getField g (row move) (column move) of
        Inl e \<Rightarrow> (Inl e, g)
      | Inr field \<Rightarrow>
          (if \<not> isReadOnly field
           then (Inr True,
                 g\<lparr>stateFields := AList.update (getFieldKey (row move) (column move))
                                (setStatus (state field) (nextStatus move)) (stateFields g)\<rparr>)
           else (Inr False, g)))"

definition makeMove :: "Kakurasu \<Rightarrow> Move \<Rightarrow> (error + bool) \<times> Kakurasu" where
  "makeMove g move =
     (case applyMove g move of
        (Inr True, g1) \<Rightarrow> (Inr True, addMoveToHistory g1 move)
      | (moveApplied, g1) \<Rightarrow> (moveApplied, g1))"

definition setFieldStatus :: "Kakurasu \<Rightarrow> nat \<Rightarrow> nat \<Rightarrow> Status \<Rightarrow> (error + bool) \<times> Kakurasu" where
  "setFieldStatus g r c s =
     (case getField g r c of
        Inl e \<Rightarrow> (Inl e, g)
      | Inr field \<Rightarrow>
          makeMove g \<lparr>row = r, column = c, previousStatus = getStatus field, nextStatus = s\<rparr>)"

definition setFieldActive :: "Kakurasu \<Rightarrow> nat \<Rightarrow> nat \<Rightarrow> (error + bool) \<times> Kakurasu" where
  "setFieldActive g r c = setFieldStatus g r c STATUS_ACTIVE"

definition setFieldFlagged :: "Kakurasu \<Rightarrow> nat \<Rightarrow> nat \<Rightarrow> (error + bool) \<times> Kakurasu" where
  "setFieldFlagged g r c = setFieldStatus g r c STATUS_FLAGGED"

definition setFieldClear :: "Kakurasu \<Rightarrow> nat \<Rightarrow> nat \<Rightarrow> (error + bool) \<times> Kakurasu" where
  "setFieldClear g r c = setFieldStatus g r c STATUS_CLEAR"

definition changeActiveStatus :: "Kakurasu \<Rightarrow> nat \<Rightarrow> nat \<Rightarrow> (error + bool) \<times> Kakurasu" where
  "changeActiveStatus g r c =
     (case getField g r c of
        Inl e \<Rightarrow> (Inl e, g)
      | Inr field \<Rightarrow> (if isClear field then setFieldActive g r c else setFieldClear g r c))"

definition changeFlagStatus :: "Kakurasu \<Rightarrow> nat \<Rightarrow> nat \<Rightarrow> (error + bool) \<times> Kakurasu" where
  "changeFlagStatus g r c =
     (case getField g r c of
        Inl e \<Rightarrow> (Inl e, g)
      | Inr field \<Rightarrow> (if isClear field then setFieldFlagged g r c else setFieldClear g r c))"

text \<open>
  \<^verbatim>\<open>this.state.moveHistory[moveIndex]\<close> is \<^verbatim>\<open>undefined\<close> (here \<open>None\<close>) for the index
  \<^verbatim>\<open>null\<close>, a negative index and an index past the end. A recorded move is an object,
  hence truthy, so \<^verbatim>\<open>!!move\<close> says that the entry exists.
\<close>

definition getMoveFromHistoryAsCopy :: "Kakurasu \<Rightarrow> int option \<Rightarrow> Move option" where
  "getMoveFromHistoryAsCopy g moveIndex =
     (case moveIndex of
        None \<Rightarrow> None
      | Some i \<Rightarrow>
          (if 0 \<le> i \<and> i < int (length (moveHistory g))
           then Some (moveHistory g ! nat i) else None))"

definition isPossibleToRedoMove :: "Kakurasu \<Rightarrow> bool" where
  "isPossibleToRedoMove g =
     (getMoveFromHistoryAsCopy g (calcNextCurrentMoveIndex g 1) \<noteq> None)"

definition isPossibleToUndoMove :: "Kakurasu \<Rightarrow> bool" where
  "isPossibleToUndoMove g =
     (getMoveFromHistoryAsCopy g (calcNextCurrentMoveIndex g 0) \<noteq> None)"

text \<open>
  In both methods the cursor is moved before the move is applied, so a throw of
  \<^verbatim>\<open>_applyMove\<close> leaves the game with the cursor already changed. The \<open>None\<close> branch
  (\<^verbatim>\<open>moveToBeRedone\<close> undefined) is excluded by the guard; there the source would read a
  property of \<^verbatim>\<open>undefined\<close>.
\<close>

definition redoMove :: "Kakurasu \<Rightarrow> (error + bool) \<times> Kakurasu" where
  "redoMove g =
     (if isPossibleToRedoMove g
      then (case getMoveFromHistoryAsCopy g (calcNextCurrentMoveIndex g 1) of
              Some moveToBeRedone \<Rightarrow> applyMove (changeCurrentMoveIndex g 1) moveToBeRedone
            | None \<Rightarrow> (Inl TypeError, changeCurrentMoveIndex g 1))
      else (Inr False, g))"

definition undoMove :: "Kakurasu \<Rightarrow> (error + bool) \<times> Kakurasu" where
  "undoMove g =
     (if isPossibleToUndoMove g
      then (case getMoveFromHistoryAsCopy g (calcNextCurrentMoveIndex g 0) of
              Some moveToBeUndone \<Rightarrow>
                applyMove (changeCurrentMoveIndex g (- 1))
                  (moveToBeUndone\<lparr>nextStatus := previousStatus moveToBeUndone,
                                   previousStatus := nextStatus moveToBeUndone\<rparr>)
            | None \<Rightarrow> (Inl TypeError, g))
      else (Inr False, g))"

text \<open>
  \<^verbatim>\<open>CLEANVALUE_MOVEHISTORY\<close> is one shared array, but the class never writes to it:
  \<^verbatim>\<open>_deleteFutureMoveHistory\<close> replaces \<^verbatim>\<open>state.moveHistory\<close> by a new array before
  the only \<^verbatim>\<open>push\<close>. It is the empty list throughout.
\<close>

definition CLEANVALUE_MOVEHISTORY :: "Move list" where
  "CLEANVALUE_MOVEHISTORY = []"

definition CLEANVALUE_CURRENTMOVEINDEX :: "int option" where
  "CLEANVALUE_CURRENTMOVEINDEX = None"

definition resetGame :: "Kakurasu \<Rightarrow> Kakurasu" where
  "resetGame g =
     g\<lparr>stateFields := map (\<lambda>(fieldKey, field). (fieldKey, reset field)) (stateFields g),
       moveHistory := CLEANVALUE_MOVEHISTORY,
       currentMoveIndex := CLEANVALUE_CURRENTMOVEINDEX\<rparr>"

section \<open>Constraint evaluation\<close>

definition getAmountRows :: "Kakurasu \<Rightarrow> nat" where
  "getAmountRows g = amountRows g"

definition getAmountColumns :: "Kakurasu \<Rightarrow> nat" where
  "getAmountColumns g = amountColumns g"

definition getAmountRowColumns :: "Kakurasu \<Rightarrow> bool \<Rightarrow> nat" where
  "getAmountRowColumns g forRow = (if forRow then getAmountRows g else getAmountColumns g)"

definition getWeight :: "nat \<Rightarrow> nat" where
  "getWeight index = index + 1"

definition getWeightForField :: "bool \<Rightarrow> KakurasuField \<Rightarrow> nat" where
  "getWeightForField forRow field =
     getWeight (if forRow then fieldColumn field else fieldRow field)"

text \<open>
  The loop of \<^verbatim>\<open>_getFieldsInRowColumn\<close> over \<open>i = 0, ..., length - 1\<close>; the first
  \<^verbatim>\<open>getField\<close> that throws ends it.
\<close>

fun getFieldsLoop :: "Kakurasu \<Rightarrow> bool \<Rightarrow> nat \<Rightarrow> nat list \<Rightarrow> error + KakurasuField list" where
  "getFieldsLoop g forRow index [] = Inr []"
| "getFieldsLoop g forRow index (i # rest) =
     (case getField g (if forRow then index else i) (if forRow then i else index) of
        Inl e \<Rightarrow> Inl e
      | Inr field \<Rightarrow>
          (case getFieldsLoop g forRow index rest of
             Inl e \<Rightarrow> Inl e
           | Inr selectedFields \<Rightarrow> Inr (field # selectedFields)))"

definition getFieldsInRowColumn :: "Kakurasu \<Rightarrow> bool \<Rightarrow> nat \<Rightarrow> error + KakurasuField list" where
  "getFieldsInRowColumn g forRow index =
     getFieldsLoop g forRow index [0 ..< getAmountRowColumns g forRow]"

definition getFieldsInRow :: "Kakurasu \<Rightarrow> nat \<Rightarrow> error + KakurasuField list" where
  "getFieldsInRow g r = getFieldsInRowColumn g True r"

definition getFieldsInColumn :: "Kakurasu \<Rightarrow> nat \<Rightarrow> error + KakurasuField list" where
  "getFieldsInColumn g c = getFieldsInRowColumn g False c"

definition getRowColumnSumValue :: "Kakurasu \<Rightarrow> bool \<Rightarrow> nat \<Rightarrow> error + nat" where
  "getRowColumnSumValue g forRow index =
     (case getFieldsInRowColumn g forRow index of
        Inl e \<Rightarrow> Inl e
      | Inr selectedFields \<Rightarrow>
          Inr (foldl (\<lambda>fieldsValue field.
                        if isActive field then fieldsValue + getWeightForField forRow field
                        else fieldsValue) 0 selectedFields))"

text \<open>
  \<^verbatim>\<open>this.meta.contraints[...][index]\<close> is \<^verbatim>\<open>undefined\<close> (\<open>None\<close>) for an index
  that was never stored.
\<close>

definition getConstraintValue :: "Kakurasu \<Rightarrow> bool \<Rightarrow> nat \<Rightarrow> nat option" where
  "getConstraintValue g forRow index =
     map_of (if forRow then contraintsRows g else contraintsColumns g) index"

definition getConstraintValueForRow :: "Kakurasu \<Rightarrow> nat \<Rightarrow> nat option" where
  "getConstraintValueForRow g r = getConstraintValue g True r"

definition getConstraintValueForColumn :: "Kakurasu \<Rightarrow> nat \<Rightarrow> nat option" where
  "getConstraintValueForColumn g c = getConstraintValue g False c"

definition isRowColumnConstraintSatisfied :: "Kakurasu \<Rightarrow> bool \<Rightarrow> nat \<Rightarrow> error + bool" where
  "isRowColumnConstraintSatisfied g forRow index =
     (let solutionValue = getConstraintValue g forRow index
      in case getRowColumnSumValue g forRow index of
           Inl e \<Rightarrow> Inl e
         | Inr fieldsValue \<Rightarrow> Inr (solutionValue = Some fieldsValue))"

definition isRowConstraintSatisfied :: "Kakurasu \<Rightarrow> nat \<Rightarrow> error + bool" where
  "isRowConstraintSatisfied g r = isRowColumnConstraintSatisfied g True r"

definition isColumnConstraintSatisfied :: "Kakurasu \<Rightarrow> nat \<Rightarrow> error + bool" where
  "isColumnConstraintSatisfied g c = isRowColumnConstraintSatisfied g False c"

text \<open>
  The loop of \<^verbatim>\<open>_areAllRowColumnContraintsSatisfied\<close>. Its body calls
  \<^verbatim>\<open>this._isRowColumnConstraintSatisfied(true, i)\<close>: the first argument is the
  literal \<^verbatim>\<open>true\<close>, not \<^verbatim>\<open>forRow\<close>.
\<close>

fun areAllLoop :: "Kakurasu \<Rightarrow> nat list \<Rightarrow> error + bool" where
  "areAllLoop g [] = Inr True"
| "areAllLoop g (i # rest) =
     (case isRowColumnConstraintSatisfied g True i of
        Inl e \<Rightarrow> Inl e
      | Inr constraintSatisfied \<Rightarrow>
          (if \<not> constraintSatisfied then Inr False else areAllLoop g rest))"

definition areAllRowColumnContraintsSatisfied :: "Kakurasu \<Rightarrow> bool \<Rightarrow> error + bool" where
  "areAllRowColumnContraintsSatisfied g forRow =
     areAllLoop g [0 ..< getAmountRowColumns g forRow]"

definition isGameWon :: "Kakurasu \<Rightarrow> error + bool" where
  "isGameWon g =
     (case areAllRowColumnContraintsSatisfied g True of
        Inl e \<Rightarrow> Inl e
      | Inr allRowsSatisfied \<Rightarrow>
          (if \<not> allRowsSatisfied then Inr False
           else (case areAllRowColumnContraintsSatisfied g False of
                   Inl e \<Rightarrow> Inl e
                 | Inr allColumnsSatisfied \<Rightarrow>
                     (if \<not> allColumnsSatisfied then Inr False
                      else Inr (allRowsSatisfied \<and> allColumnsSatisfied)))))"

section \<open>Loading the meta information\<close>

text \<open>
  \<^verbatim>\<open>!highestColumnKey\<close> holds for \<^verbatim>\<open>null\<close> and for 0.
\<close>

definition falsy :: "nat option \<Rightarrow> bool" where
  "falsy v = (case v of None \<Rightarrow> True | Some n \<Rightarrow> n = 0)"

definition lessThanKey :: "nat option \<Rightarrow> nat \<Rightarrow> bool" where
  "lessThanKey v n = (case v of None \<Rightarrow> False | Some h \<Rightarrow> h < n)"

text \<open>
  One round of the key loop of \<^verbatim>\<open>_loadFiledMetaInformationsAmountRowsAndColumns\<close>, on
  the pair (\<^verbatim>\<open>highestRowKey\<close>, \<^verbatim>\<open>highestColumnKey\<close>). As in the source,
  \<^verbatim>\<open>column\<close> is read from \<^verbatim>\<open>split[0]\<close> and \<^verbatim>\<open>row\<close> from \<^verbatim>\<open>split[1]\<close>, and
  both tests compare with \<^verbatim>\<open>column\<close>.
\<close>

definition highestKeyStep :: "nat option \<times> nat option \<Rightarrow> fieldKey \<Rightarrow> nat option \<times> nat option" where
  "highestKeyStep highest fieldKey =
     (let highestRowKey = fst highest;
          highestColumnKey = snd highest;
          column = fst fieldKey;
          row = snd fieldKey;
          highestColumnKey1 =
            (if falsy highestColumnKey \<or> lessThanKey highestColumnKey column
             then Some column else highestColumnKey);
          highestRowKey1 =
            (if falsy highestRowKey \<or> lessThanKey highestRowKey column
             then Some row else highestRowKey)
      in (highestRowKey1, highestColumnKey1))"

definition loadFiledMetaInformationsAmountRowsAndColumns :: "Kakurasu \<Rightarrow> Kakurasu" where
  "loadFiledMetaInformationsAmountRowsAndColumns g =
     (let highest = foldl highestKeyStep (None, None) (map fst (stateFields g))
      in g\<lparr>amountRows := (case fst highest of Some h \<Rightarrow> h + 1 | None \<Rightarrow> 0),
           amountColumns := (case snd highest of Some h \<Rightarrow> h + 1 | None \<Rightarrow> 0)\<rparr>)"

definition loadFieldMetaInformationsContraintsForFields ::
    "Kakurasu \<Rightarrow> bool \<Rightarrow> nat \<Rightarrow> error + Kakurasu" where
  "loadFieldMetaInformationsContraintsForFields g forRow index =
     (case getFieldsInRowColumn g forRow index of
        Inl e \<Rightarrow> Inl e
      | Inr selectedFields \<Rightarrow>
          (let solutionValue =
                 foldl (\<lambda>v field. if isSolution field then v + getWeightForField forRow field
                                    else v) 0 selectedFields
           in Inr (if forRow
                   then g\<lparr>contraintsRows := AList.update index solutionValue (contraintsRows g)\<rparr>
                   else g\<lparr>contraintsColumns :=
                            AList.update index solutionValue (contraintsColumns g)\<rparr>)))"

fun loadConstraintsLoop :: "Kakurasu \<Rightarrow> bool \<Rightarrow> nat list \<Rightarrow> error + Kakurasu" where
  "loadConstraintsLoop g forRow [] = Inr g"
| "loadConstraintsLoop g forRow (i # rest) =
     (case loadFieldMetaInformationsContraintsForFields g forRow i of
        Inl e \<Rightarrow> Inl e
      | Inr g1 \<Rightarrow> loadConstraintsLoop g1 forRow rest)"

definition loadFieldMetaInformationsConstraintsForRowColumn ::
    "Kakurasu \<Rightarrow> bool \<Rightarrow> error + Kakurasu" where
  "loadFieldMetaInformationsConstraintsForRowColumn g forRow =
     loadConstraintsLoop g forRow
       [0 ..< (if forRow then getAmountRows g else getAmountColumns g)]"

definition loadFieldMetaInformationsContraints :: "Kakurasu \<Rightarrow> error + Kakurasu" where
  "loadFieldMetaInformationsContraints g =
     (case loadFieldMetaInformationsConstraintsForRowColumn
             (g\<lparr>contraintsRows := [], contraintsColumns := []\<rparr>) True of
        Inl e \<Rightarrow> Inl e
      | Inr g1 \<Rightarrow> loadFieldMetaInformationsConstraintsForRowColumn g1 False)"

definition loadFieldMetaInformations :: "Kakurasu \<Rightarrow> error + Kakurasu" where
  "loadFieldMetaInformations g =
     loadFieldMetaInformationsContraints (loadFiledMetaInformationsAmountRowsAndColumns g)"

section \<open>Level generator\<close>

text \<open>
  \<open>GivenConfig\<close> is the \<^verbatim>\<open>config\<close> argument of \<^verbatim>\<open>generateLevel\<close>: every property
  may be absent (\<open>None\<close>). Row and column counts are natural numbers; the four amounts
  are rationals, since the default maximum \<^verbatim>\<open>config.rows/2\<close> need not be an integer.
  \<open>Config\<close> is the same object once the defaults are filled in. The property
  \<^verbatim>\<open>difficulty\<close> is written and never read; it is left out.
\<close>

record GivenConfig =
  givenRows :: "nat option"
  givenColumns :: "nat option"
  givenAmountMinimumInRow :: "rat option"
  givenAmountMaximumInRow :: "rat option"
  givenAmountMinimumInColumn :: "rat option"
  givenAmountMaximumInColumn :: "rat option"

record Config =
  rows :: nat
  columns :: nat
  amountMinimumInRow :: rat
  amountMaximumInRow :: rat
  amountMinimumInColumn :: rat
  amountMaximumInColumn :: rat

text \<open>
  \<^verbatim>\<open>value || default\<close> on a number that may be absent: an absent value and the number
  0 are both falsy and give the default.
\<close>

definition orDefault :: "'a::zero option \<Rightarrow> 'a \<Rightarrow> 'a" where
  "orDefault v d = (case v of None \<Rightarrow> d | Some x \<Rightarrow> if x = 0 then d else x)"

definition emptyConfig :: GivenConfig where
  "emptyConfig =
     \<lparr>givenRows = None, givenColumns = None,
      givenAmountMinimumInRow = None, givenAmountMaximumInRow = None,
      givenAmountMinimumInColumn = None, givenAmountMaximumInColumn = None\<rparr>"

text \<open>Lines 741 to 748 of \<^verbatim>\<open>generateLevel\<close>: the defaults.\<close>

definition configDefaults :: "GivenConfig option \<Rightarrow> Config" where
  "configDefaults given =
     (let config = (case given of None \<Rightarrow> emptyConfig | Some c \<Rightarrow> c);
          rows1 = orDefault (givenRows config) 5;
          columns1 = orDefault (givenColumns config) rows1
      in \<lparr>rows = rows1, columns = columns1,
          amountMinimumInRow = orDefault (givenAmountMinimumInRow config) 1,
          amountMaximumInRow = orDefault (givenAmountMaximumInRow config) (of_nat rows1 / 2),
          amountMinimumInColumn = orDefault (givenAmountMinimumInColumn config) 1,
          amountMaximumInColumn =
            orDefault (givenAmountMaximumInColumn config) (of_nat columns1 / 2)\<rparr>)"

text \<open>
  Lines 751 to 782 of \<^verbatim>\<open>generateLevel\<close>: the five tests on the row amounts, then
  the five tests on the column amounts, each in the order of the source.
\<close>

definition clampRowAmounts :: "Config \<Rightarrow> Config" where
  "clampRowAmounts config =
     (let c1 = (if amountMinimumInRow config < 0
                then config\<lparr>amountMinimumInRow := 0\<rparr> else config);
          c2 = (if amountMinimumInRow c1 > of_nat (rows c1)
                then c1\<lparr>amountMinimumInRow := of_nat (rows c1)\<rparr> else c1);
          c3 = (if amountMaximumInRow c2 > of_nat (rows c2)
                then c2\<lparr>amountMaximumInRow := of_nat (rows c2)\<rparr> else c2);
          c4 = (if amountMaximumInRow c3 < 0
                then c3\<lparr>amountMaximumInRow := 0\<rparr> else c3)
      in (if amountMaximumInRow c4 < amountMinimumInRow c4
          then c4\<lparr>amountMaximumInRow := amountMinimumInRow c4\<rparr> else c4))"

definition clampColumnAmounts :: "Config \<Rightarrow> Config" where
  "clampColumnAmounts config =
     (let c1 = (if amountMinimumInColumn config < 0
                then config\<lparr>amountMinimumInColumn := 0\<rparr> else config);
          c2 = (if amountMinimumInColumn c1 > of_nat (columns c1)
                then c1\<lparr>amountMinimumInColumn := of_nat (columns c1)\<rparr> else c1);
          c3 = (if amountMaximumInColumn c2 > of_nat (columns c2)
                then c2\<lparr>amountMaximumInColumn := of_nat (columns c2)\<rparr> else c2);
          c4 = (if amountMaximumInColumn c3 < 0
                then c3\<lparr>amountMaximumInColumn := 0\<rparr> else c3)
      in (if amountMaximumInColumn c4 < amountMinimumInColumn c4
          then c4\<lparr>amountMaximumInColumn := amountMinimumInColumn c4\<rparr> else c4))"

definition configClamp :: "Config \<Rightarrow> Config" where
  "configClamp config = clampColumnAmounts (clampRowAmounts config)"

definition normalizeConfig :: "GivenConfig option \<Rightarrow> Config" where
  "normalizeConfig given = configClamp (configDefaults given)"

text \<open>
  \<^verbatim>\<open>Math.random()\<close> is the generator's only source of chance, and it is only used as
  \<^verbatim>\<open>Math.floor(Math.random() * k)\<close> for an integer \<open>k\<close>. The random source is a
  sequence of natural numbers, one for each call; the call with \<open>k > 0\<close> returns the
  next number modulo \<open>k\<close>, which ranges over \<open>0, ..., k - 1\<close> as the product's floor
  does. For \<open>k = 0\<close> the floor is 0, and for \<open>k < 0\<close> it ranges over \<open>k, ..., 0\<close>.
\<close>

type_synonym random = "nat \<Rightarrow> nat"

definition randomFloor :: "random \<Rightarrow> int \<Rightarrow> int \<times> random" where
  "randomFloor rnd k =
     ((if k > 0 then int (rnd 0) mod k
       else if k = 0 then 0
       else - (int (rnd 0) mod (1 - k))),
      (\<lambda>n. rnd (Suc n)))"

definition getRandomInt :: "random \<Rightarrow> rat \<Rightarrow> rat \<Rightarrow> int \<times> random" where
  "getRandomInt rnd min0 max0 =
     (let min1 = \<lceil>min0\<rceil>;
          max1 = \<lfloor>max0\<rfloor>;
          drawn = randomFloor rnd (max1 - min1 + 1)
      in (fst drawn + min1, snd drawn))"

text \<open>
  \<^verbatim>\<open>_shuffle\<close>: \<open>i\<close> runs from \<open>a.length - 1\<close> down to 1, and \<open>j\<close> is drawn from
  \<open>0, ..., i\<close>, so both reads and both writes are inside the array.
\<close>

fun shuffleLoop :: "nat \<Rightarrow> 'a list \<Rightarrow> random \<Rightarrow> 'a list \<times> random" where
  "shuffleLoop 0 a rnd = (a, rnd)"
| "shuffleLoop (Suc i) a rnd =
     (let drawn = randomFloor rnd (int (Suc i) + 1);
          j = nat (fst drawn);
          x = a ! Suc i;
          a1 = a[Suc i := a ! j];
          a2 = a1[j := x]
      in shuffleLoop i a2 (snd drawn))"

definition shuffle :: "'a list \<Rightarrow> random \<Rightarrow> 'a list \<times> random" where
  "shuffle a rnd = shuffleLoop (length a - 1) a rnd"

text \<open>
  \<^verbatim>\<open>_selectRandomAmountIndexes\<close>: \<^verbatim>\<open>shuffledArray[i]\<close> past the end of the array is
  \<^verbatim>\<open>undefined\<close>, here \<open>None\<close>.
\<close>

definition selectRandomAmountIndexes ::
    "random \<Rightarrow> nat \<Rightarrow> rat \<Rightarrow> rat \<Rightarrow> nat option list \<times> random" where
  "selectRandomAmountIndexes rnd maxAmount amountMinimalSelectedIndex amountMaximalSelectedIndex =
     (let amountToSelect = getRandomInt rnd amountMinimalSelectedIndex amountMaximalSelectedIndex;
          indexArray = [0 ..< maxAmount];
          shuffled = shuffle indexArray (snd amountToSelect);
          shuffledArray = fst shuffled
      in (map (\<lambda>i. if i < length shuffledArray then Some (shuffledArray ! i) else None)
            [0 ..< nat (fst amountToSelect)],
          snd shuffled))"

definition newKakurasuField :: FieldState where
  "newKakurasuField = \<lparr>status = STATUS_CLEAR, readOnly = False, solution = False\<rparr>"

definition initEmptyField :: "nat \<Rightarrow> nat \<Rightarrow> (fieldKey \<times> FieldState) list" where
  "initEmptyField rows0 columns0 =
     foldl (\<lambda>fs fieldKey. AList.update fieldKey newKakurasuField fs) []
       (concat (map (\<lambda>y. map (\<lambda>x. getFieldKey y x) [0 ..< columns0]) [0 ..< rows0]))"

text \<open>
  The inner loop of \<^verbatim>\<open>_setSolutionFieldsForRowColumn\<close>. A key built from
  \<^verbatim>\<open>undefined\<close>, or any key that is not in \<^verbatim>\<open>fields\<close>, makes
  \<^verbatim>\<open>field.setIsSolution\<close> throw.
\<close>

fun setSolutionIndexes ::
    "bool \<Rightarrow> nat \<Rightarrow> nat option list \<Rightarrow> (fieldKey \<times> FieldState) list
      \<Rightarrow> error + (fieldKey \<times> FieldState) list" where
  "setSolutionIndexes forRow outerIndex [] fs = Inr fs"
| "setSolutionIndexes forRow outerIndex (None # rest) fs = Inl TypeError"
| "setSolutionIndexes forRow outerIndex (Some solutionIndex # rest) fs =
     (let fieldKey = getFieldKey (if forRow then outerIndex else solutionIndex)
                                 (if forRow then solutionIndex else outerIndex)
      in case map_of fs fieldKey of
           None \<Rightarrow> Inl TypeError
         | Some field \<Rightarrow>
             setSolutionIndexes forRow outerIndex rest
               (AList.update fieldKey (setIsSolution field True) fs))"

text \<open>
  The outer loop. The pass over the rows selects among \<^verbatim>\<open>config.columns\<close> indexes with
  the column amounts, the pass over the columns among \<^verbatim>\<open>config.rows\<close> indexes with
  the row amounts.
\<close>

fun setSolutionLoop ::
    "bool \<Rightarrow> Config \<Rightarrow> nat list \<Rightarrow> (fieldKey \<times> FieldState) list \<Rightarrow> random
      \<Rightarrow> error + ((fieldKey \<times> FieldState) list \<times> random)" where
  "setSolutionLoop forRow config [] fs rnd = Inr (fs, rnd)"
| "setSolutionLoop forRow config (outerIndex # rest) fs rnd =
     (let selected =
            (if forRow
             then selectRandomAmountIndexes rnd (columns config)
                    (amountMinimumInColumn config) (amountMaximumInColumn config)
             else selectRandomAmountIndexes rnd (rows config)
                    (amountMinimumInRow config) (amountMaximumInRow config))
      in case setSolutionIndexes forRow outerIndex (fst selected) fs of
           Inl e \<Rightarrow> Inl e
         | Inr fs1 \<Rightarrow> setSolutionLoop forRow config rest fs1 (snd selected))"

definition setSolutionFieldsForRowColumn ::
    "bool \<Rightarrow> (fieldKey \<times> FieldState) list \<Rightarrow> Config \<Rightarrow> random
      \<Rightarrow> error + ((fieldKey \<times> FieldState) list \<times> random)" where
  "setSolutionFieldsForRowColumn forRow fs config rnd =
     setSolutionLoop forRow config
       [0 ..< (if forRow then rows config else columns config)] fs rnd"

definition generateLevel ::
    "GivenConfig option \<Rightarrow> random \<Rightarrow> error + ((fieldKey \<times> FieldState) list \<times> random)" where
  "generateLevel given rnd =
     (let config = normalizeConfig given;
          fs = initEmptyField (rows config) (columns config)
      in case setSolutionFieldsForRowColumn True fs config rnd of
           Inl e \<Rightarrow> Inl e
         | Inr (fs1, rnd1) \<Rightarrow> setSolutionFieldsForRowColumn False fs1 config rnd1)"

section \<open>Construction\<close>

text \<open>
  \<open>Snapshot\<close> is the \<^verbatim>\<open>state\<close> argument of the constructor; each of its three
  properties may be absent. An absent \<^verbatim>\<open>currentMoveIndex\<close> and \<^verbatim>\<open>null\<close> are both
  \<open>None\<close>: the constructor reads the property only through \<^verbatim>\<open>|| null\<close>. An array and
  an object are truthy even when empty, so only an absent \<^verbatim>\<open>moveHistory\<close> or
  \<^verbatim>\<open>fields\<close> takes the default.
\<close>

record Snapshot =
  snapshotMoveHistory :: "Move list option"
  snapshotCurrentMoveIndex :: "int option"
  snapshotFields :: "(fieldKey \<times> FieldState) list option"

definition constructor :: "Snapshot \<Rightarrow> random \<Rightarrow> error + Kakurasu" where
  "constructor snapshot rnd =
     (let moveHistory0 =
            (case snapshotMoveHistory snapshot of
               None \<Rightarrow> CLEANVALUE_MOVEHISTORY | Some h \<Rightarrow> h);
          currentMoveIndex0 =
            (case snapshotCurrentMoveIndex snapshot of
               None \<Rightarrow> CLEANVALUE_CURRENTMOVEINDEX
             | Some i \<Rightarrow> if i = 0 then CLEANVALUE_CURRENTMOVEINDEX else Some i);
          currentMoveIndex1 =
            (if (currentMoveIndex0 = None \<or> currentMoveIndex0 = Some 0)
                \<and> length moveHistory0 > 0
             then Some (int (length moveHistory0) - 1) else currentMoveIndex0)
      in case (case snapshotFields snapshot of
                 None \<Rightarrow> map_sum id fst (generateLevel None rnd)
               | Some fs \<Rightarrow> Inr fs) of
           Inl e \<Rightarrow> Inl e
         | Inr fs \<Rightarrow>
             loadFieldMetaInformations
               \<lparr>moveHistory = moveHistory0, currentMoveIndex = currentMoveIndex1,
                stateFields = foldl (\<lambda>acc (fieldKey, fieldJSON).
                                       AList.update fieldKey fieldJSON acc) [] fs,
                amountRows = 0, amountColumns = 0,
                contraintsRows = [], contraintsColumns = []\<rparr>)"

text \<open>
  \<^verbatim>\<open>asJSON\<close>: the export holds the history, the cursor and the state of every field.
\<close>

definition asJSON :: "Kakurasu \<Rightarrow> Snapshot" where
  "asJSON g =
     \<lparr>snapshotMoveHistory = Some (moveHistory g),
      snapshotCurrentMoveIndex = currentMoveIndex g,
      snapshotFields = Some (stateFields g)\<rparr>"

section \<open>Properties used to state the claims\<close>

text \<open>
  The cursor-history consistency invariant: the cursor is \<^verbatim>\<open>null\<close> or an index into
  the history. Every reachable game satisfies it (lemma \<open>reachable_cursorConsistent\<close>
  below).
\<close>

definition cursorConsistent :: "Kakurasu \<Rightarrow> bool" where
  "cursorConsistent g =
     (case currentMoveIndex g of
        None \<Rightarrow> True
      | Some i \<Rightarrow> 0 \<le> i \<and> i < int (length (moveHistory g)))"

text \<open>The number of moves up to and including the cursor position.\<close>

definition committedMoves :: "Kakurasu \<Rightarrow> nat" where
  "committedMoves g = (case currentMoveIndex g of None \<Rightarrow> 0 | Some i \<Rightarrow> nat (i + 1))"

text \<open>
  A snapshot is consistent when its cursor is \<^verbatim>\<open>null\<close> or an index into its
  history, as in every export of a game that satisfies the invariant.
\<close>

definition snapshotConsistent :: "Snapshot \<Rightarrow> bool" where
  "snapshotConsistent snapshot =
     (case snapshotCurrentMoveIndex snapshot of
        None \<Rightarrow> True
      | Some i \<Rightarrow>
          0 \<le> i \<and>
          i < int (length (case snapshotMoveHistory snapshot of None \<Rightarrow> [] | Some h \<Rightarrow> h)))"

text \<open>
  The reachable games: those constructed from a consistent snapshot (a new game among
  them) and those that a public operation leaves, whatever it returns.
\<close>

inductive reachable :: "Kakurasu \<Rightarrow> bool" where
  reachable_constructed:
    "constructor snapshot rnd = Inr g \<Longrightarrow> snapshotConsistent snapshot \<Longrightarrow> reachable g"
| reachable_setFieldActive: "reachable g \<Longrightarrow> reachable (snd (setFieldActive g r c))"
| reachable_setFieldFlagged: "reachable g \<Longrightarrow> reachable (snd (setFieldFlagged g r c))"
| reachable_setFieldClear: "reachable g \<Longrightarrow> reachable (snd (setFieldClear g r c))"
| reachable_changeActiveStatus: "reachable g \<Longrightarrow> reachable (snd (changeActiveStatus g r c))"
| reachable_changeFlagStatus: "reachable g \<Longrightarrow> reachable (snd (changeFlagStatus g r c))"
| reachable_undoMove: "reachable g \<Longrightarrow> reachable (snd (undoMove g))"
| reachable_redoMove: "reachable g \<Longrightarrow> reachable (snd (redoMove g))"
| reachable_resetGame: "reachable g \<Longrightarrow> reachable (resetGame g)"

section \<open>Example games\<close>

definition exampleField :: "Status \<Rightarrow> bool \<Rightarrow> bool \<Rightarrow> FieldState" where
  "exampleField s ro sol = \<lparr>status = s, readOnly = ro, solution = sol\<rparr>"

text \<open>
  A new 2 x 2 game with the solution mask (0,0), (1,1); the field (0,1) is a given,
  read-only cell that is flagged.
\<close>

definition exampleFields :: "(fieldKey \<times> FieldState) list" where
  "exampleFields =
     [((0, 0), exampleField STATUS_CLEAR False True),
      ((0, 1), exampleField STATUS_FLAGGED True False),
      ((1, 0), exampleField STATUS_CLEAR False False),
      ((1, 1), exampleField STATUS_CLEAR False True)]"

definition exampleGame :: Kakurasu where
  "exampleGame =
     \<lparr>moveHistory = [], currentMoveIndex = None, stateFields = exampleFields,
      amountRows = 2, amountColumns = 2,
      contraintsRows = [(0, 1), (1, 2)], contraintsColumns = [(0, 1), (1, 2)]\<rparr>"

text \<open>
  The example game after \<^verbatim>\<open>setFieldActive(0,0)\<close>, \<^verbatim>\<open>setFieldFlagged(1,1)\<close> and
  \<^verbatim>\<open>undoMove()\<close>.
\<close>

definition playedGame :: Kakurasu where
  "playedGame =
     \<lparr>moveHistory =
        [\<lparr>row = 0, column = 0, previousStatus = STATUS_CLEAR, nextStatus = STATUS_ACTIVE\<rparr>,
         \<lparr>row = 1, column = 1, previousStatus = STATUS_CLEAR, nextStatus = STATUS_FLAGGED\<rparr>],
      currentMoveIndex = Some 0,
      stateFields =
        [((0, 0), exampleField STATUS_ACTIVE False True),
         ((0, 1), exampleField STATUS_FLAGGED True False),
         ((1, 0), exampleField STATUS_CLEAR False False),
         ((1, 1), exampleField STATUS_CLEAR False True)],
      amountRows = 2, amountColumns = 2,
      contraintsRows = [(0, 1), (1, 2)], contraintsColumns = [(0, 1), (1, 2)]\<rparr>"

text \<open>
  A 3 x 3 puzzle whose only solution cell is (0,2): the row targets are 3, 0, 0 and the
  column targets 0, 0, 1.
\<close>

definition columnSnapshot :: Snapshot where
  "columnSnapshot =
     \<lparr>snapshotMoveHistory = None, snapshotCurrentMoveIndex = None,
      snapshotFields = Some
        [((0, 0), exampleField STATUS_CLEAR False False),
         ((0, 1), exampleField STATUS_CLEAR False False),
         ((0, 2), exampleField STATUS_CLEAR False True),
         ((1, 0), exampleField STATUS_CLEAR False False),
         ((1, 1), exampleField STATUS_CLEAR False False),
         ((1, 2), exampleField STATUS_CLEAR False False),
         ((2, 0), exampleField STATUS_CLEAR False False),
         ((2, 1), exampleField STATUS_CLEAR False False),
         ((2, 2), exampleField STATUS_CLEAR False False)]\<rparr>"

text \<open>
  The export of a 1 x 1 game after \<^verbatim>\<open>setFieldActive(0,0)\<close>,
  \<^verbatim>\<open>setFieldFlagged(0,0)\<close> and \<^verbatim>\<open>undoMove()\<close>: two recorded moves, the cursor on the
  first of them, is \<open>savedSnapshot (Some 0) STATUS_ACTIVE\<close>. The export after a second
  \<^verbatim>\<open>undoMove()\<close>, with every move undone, is \<open>savedSnapshot None STATUS_CLEAR\<close>.
\<close>

definition savedSnapshot :: "int option \<Rightarrow> Status \<Rightarrow> Snapshot" where
  "savedSnapshot cursor s =
     \<lparr>snapshotMoveHistory = Some
        [\<lparr>row = 0, column = 0, previousStatus = STATUS_CLEAR, nextStatus = STATUS_ACTIVE\<rparr>,
         \<lparr>row = 0, column = 0, previousStatus = STATUS_ACTIVE, nextStatus = STATUS_FLAGGED\<rparr>],
      snapshotCurrentMoveIndex = cursor,
      snapshotFields = Some [((0, 0), exampleField s False True)]\<rparr>"

text \<open>The random source whose every draw is 0.\<close>

definition noRandom :: random where
  "noRandom = (\<lambda>n. 0)"

section \<open>Lemmas on the move path\<close>

lemma getField_Inr_iff:
  "getField g r c = Inr field \<longleftrightarrow>
     (\<exists>st. map_of (stateFields g) (r, c) = Some st \<and> field = KakurasuField st r c)"
  by (auto simp: getField_def getFieldKey_def split: option.splits)

lemma applyMove_history [simp]: "moveHistory (snd (applyMove g m)) = moveHistory g"
  by (auto simp: applyMove_def split: sum.splits)

lemma applyMove_cursor [simp]: "currentMoveIndex (snd (applyMove g m)) = currentMoveIndex g"
  by (auto simp: applyMove_def split: sum.splits)

lemma setFieldStatus_readOnly:
  assumes "getField g r c = Inr field" and "isReadOnly field"
  shows "setFieldStatus g r c s = (Inr False, g)"
  using assms by (simp add: setFieldStatus_def makeMove_def applyMove_def)

lemma setFieldStatus_writable:
  assumes "getField g r c = Inr field" and "\<not> isReadOnly field"
  shows "setFieldStatus g r c s =
    (Inr True,
     addMoveToHistory
       (g\<lparr>stateFields := AList.update (r, c) (setStatus (state field) s) (stateFields g)\<rparr>)
       \<lparr>row = r, column = c, previousStatus = getStatus field, nextStatus = s\<rparr>)"
  using assms by (simp add: setFieldStatus_def makeMove_def applyMove_def getFieldKey_def)

lemma setFieldStatus_throws:
  assumes "getField g r c = Inl e"
  shows "setFieldStatus g r c s = (Inl e, g)"
  using assms by (simp add: setFieldStatus_def)

lemma setFieldStatus_success_iff:
  "fst (setFieldStatus g r c s) = Inr True \<longleftrightarrow>
     (\<exists>field. getField g r c = Inr field \<and> \<not> isReadOnly field)"
proof (cases "getField g r c")
  case (Inl e)
  then show ?thesis by (simp add: setFieldStatus_throws)
next
  case (Inr field)
  then show ?thesis
    by (cases "isReadOnly field")
       (simp_all add: setFieldStatus_readOnly setFieldStatus_writable)
qed

lemma addMoveToHistory_Empty:
  "currentMoveIndex g = None \<Longrightarrow>
   addMoveToHistory g m = g\<lparr>moveHistory := [m], currentMoveIndex := Some 0\<rparr>"
  by (simp add: addMoveToHistory_def deleteFutureMoveHistory_def changeCurrentMoveIndex_def
        calcNextCurrentMoveIndex_def Let_def)

lemma addMoveToHistory_At:
  "currentMoveIndex g = Some i \<Longrightarrow> 0 \<le> i \<Longrightarrow>
   addMoveToHistory g m =
     g\<lparr>moveHistory := take (nat (i + 1)) (moveHistory g) @ [m],
       currentMoveIndex := Some (i + 1)\<rparr>"
  by (simp add: addMoveToHistory_def deleteFutureMoveHistory_def changeCurrentMoveIndex_def
        calcNextCurrentMoveIndex_def Let_def slice0_def)

lemma addMoveToHistory_committed:
  assumes "cursorConsistent g"
  shows "addMoveToHistory g m =
           g\<lparr>moveHistory := take (committedMoves g) (moveHistory g) @ [m],
             currentMoveIndex := Some (int (committedMoves g))\<rparr>"
proof (cases "currentMoveIndex g")
  case None
  then show ?thesis by (simp add: addMoveToHistory_Empty committedMoves_def)
next
  case (Some i)
  with assms have "0 \<le> i" by (simp add: cursorConsistent_def)
  with Some show ?thesis by (simp add: addMoveToHistory_At committedMoves_def)
qed

lemma addMoveToHistory_inv:
  "cursorConsistent g \<Longrightarrow>
   cursorConsistent (addMoveToHistory g m) \<and>
   currentMoveIndex (addMoveToHistory g m) =
     Some (int (length (moveHistory (addMoveToHistory g m))) - 1)"
  by (cases "currentMoveIndex g")
     (auto simp: cursorConsistent_def addMoveToHistory_Empty addMoveToHistory_At)

lemma cursorConsistent_stateFields [simp]:
  "cursorConsistent (g\<lparr>stateFields := fs\<rparr>) = cursorConsistent g"
  by (simp add: cursorConsistent_def split: option.splits)

lemma applyMove_inv: "cursorConsistent (snd (applyMove g m)) = cursorConsistent g"
  by (simp add: cursorConsistent_def split: option.splits)

lemma setFieldStatus_inv:
  assumes "cursorConsistent g"
  shows "cursorConsistent (snd (setFieldStatus g r c s))"
proof (cases "getField g r c")
  case (Inl e)
  with assms show ?thesis by (simp add: setFieldStatus_throws)
next
  case (Inr field)
  with assms show ?thesis
    by (cases "isReadOnly field")
       (simp_all add: setFieldStatus_readOnly setFieldStatus_writable addMoveToHistory_inv)
qed

lemma setFieldStatus_cursor_last:
  assumes "cursorConsistent g" and "fst (setFieldStatus g r c s) = Inr True"
  shows "currentMoveIndex (snd (setFieldStatus g r c s)) =
           Some (int (length (moveHistory (snd (setFieldStatus g r c s)))) - 1)"
proof -
  from assms(2) obtain field where "getField g r c = Inr field" and "\<not> isReadOnly field"
    by (auto simp: setFieldStatus_success_iff)
  with assms(1) show ?thesis
    by (simp add: setFieldStatus_writable addMoveToHistory_inv)
qed

lemma undoMove_inv: "cursorConsistent g \<Longrightarrow> cursorConsistent (snd (undoMove g))"
  by (auto simp: undoMove_def applyMove_inv cursorConsistent_def changeCurrentMoveIndex_def
        calcNextCurrentMoveIndex_def split: option.splits)

lemma redoMove_inv: "cursorConsistent g \<Longrightarrow> cursorConsistent (snd (redoMove g))"
  by (auto simp: redoMove_def isPossibleToRedoMove_def getMoveFromHistoryAsCopy_def
        applyMove_inv cursorConsistent_def changeCurrentMoveIndex_def
        calcNextCurrentMoveIndex_def split: option.splits if_splits)

lemma resetGame_inv: "cursorConsistent (resetGame g)"
  by (simp add: resetGame_def cursorConsistent_def CLEANVALUE_CURRENTMOVEINDEX_def)

lemma undoMove_history [simp]: "moveHistory (snd (undoMove g)) = moveHistory g"
  by (simp add: undoMove_def changeCurrentMoveIndex_def split: option.splits)

lemma committedMoves_le:
  "cursorConsistent g \<Longrightarrow> committedMoves g \<le> length (moveHistory g)"
  by (auto simp: cursorConsistent_def committedMoves_def split: option.splits)

text \<open>The game that a successful move leaves, written out.\<close>

lemma setFieldStatus_result:
  assumes inv: "cursorConsistent g" and ok: "setFieldStatus g r c s = (Inr True, g1)"
  obtains st where "map_of (stateFields g) (r, c) = Some st" and "\<not> readOnly st"
    and "g1 = g\<lparr>stateFields := AList.update (r, c) (setStatus st s) (stateFields g),
               moveHistory := take (committedMoves g) (moveHistory g) @
                 [\<lparr>row = r, column = c, previousStatus = status st, nextStatus = s\<rparr>],
               currentMoveIndex := Some (int (committedMoves g))\<rparr>"
proof -
  from ok have "fst (setFieldStatus g r c s) = Inr True" by simp
  then obtain field where f: "getField g r c = Inr field" "\<not> isReadOnly field"
    by (auto simp: setFieldStatus_success_iff)
  then obtain st where st: "map_of (stateFields g) (r, c) = Some st"
      "field = KakurasuField st r c"
    by (auto simp: getField_Inr_iff)
  let ?g = "g\<lparr>stateFields := AList.update (r, c) (setStatus st s) (stateFields g)\<rparr>"
  have inv': "cursorConsistent ?g"
    using inv by simp
  have "committedMoves ?g = committedMoves g"
    by (simp add: committedMoves_def)
  with ok f st inv'
  have "g1 = g\<lparr>stateFields := AList.update (r, c) (setStatus st s) (stateFields g),
               moveHistory := take (committedMoves g) (moveHistory g) @
                 [\<lparr>row = r, column = c, previousStatus = status st, nextStatus = s\<rparr>],
               currentMoveIndex := Some (int (committedMoves g))\<rparr>"
    by (simp add: setFieldStatus_writable addMoveToHistory_committed getStatus_def)
  with st f that show thesis by (simp add: isReadOnly_def)
qed

lemma new_move_history:
  assumes inv: "cursorConsistent g" and ok: "setFieldStatus g r c s = (Inr True, g1)"
  shows "(\<exists>field. getField g r c = Inr field \<and>
            moveHistory g1 = take (committedMoves g) (moveHistory g) @
              [\<lparr>row = r, column = c, previousStatus = getStatus field, nextStatus = s\<rparr>]) \<and>
         currentMoveIndex g1 = Some (int (committedMoves g))"
proof -
  from inv ok obtain st where "map_of (stateFields g) (r, c) = Some st"
    and "g1 = g\<lparr>stateFields := AList.update (r, c) (setStatus st s) (stateFields g),
               moveHistory := take (committedMoves g) (moveHistory g) @
                 [\<lparr>row = r, column = c, previousStatus = status st, nextStatus = s\<rparr>],
               currentMoveIndex := Some (int (committedMoves g))\<rparr>"
    by (rule setFieldStatus_result)
  then show ?thesis by (simp add: getField_def getFieldKey_def getStatus_def)
qed

lemma undo_then_redo:
  assumes inv: "cursorConsistent g" and ok: "setFieldStatus g r c s = (Inr True, g1)"
  shows "\<exists>g2. undoMove g1 = (Inr True, g2) \<and> redoMove g2 = (Inr True, g1) \<and>
              map_of (stateFields g2) (r, c) = map_of (stateFields g) (r, c)"
proof -
  from inv ok obtain st where st: "map_of (stateFields g) (r, c) = Some st" "\<not> readOnly st"
    and g1: "g1 = g\<lparr>stateFields := AList.update (r, c) (setStatus st s) (stateFields g),
               moveHistory := take (committedMoves g) (moveHistory g) @
                 [\<lparr>row = r, column = c, previousStatus = status st, nextStatus = s\<rparr>],
               currentMoveIndex := Some (int (committedMoves g))\<rparr>"
    by (rule setFieldStatus_result)
  let ?n = "committedMoves g"
  let ?m = "\<lparr>row = r, column = c, previousStatus = status st, nextStatus = s\<rparr>"
  have n: "?n \<le> length (moveHistory g)" using inv by (rule committedMoves_le)
  have nth: "(take ?n (moveHistory g) @ [?m]) ! ?n = ?m"
    using n by (simp add: nth_append)
  let ?g2 = "g1\<lparr>currentMoveIndex := (if ?n = 0 then None else Some (int ?n - 1)),
                stateFields := AList.update (r, c) st (stateFields g)\<rparr>"
  have step1: "undoMove g1 = (Inr True, ?g2)"
    using st n nth
    by (simp add: g1 undoMove_def isPossibleToUndoMove_def getMoveFromHistoryAsCopy_def
          calcNextCurrentMoveIndex_def changeCurrentMoveIndex_def applyMove_def getField_def
          getFieldKey_def isReadOnly_def update_conv' setStatus_def)
  have step2: "redoMove ?g2 = (Inr True, g1)"
    using st n nth
    by (simp add: g1 redoMove_def isPossibleToRedoMove_def getMoveFromHistoryAsCopy_def
          calcNextCurrentMoveIndex_def changeCurrentMoveIndex_def applyMove_def getField_def
          getFieldKey_def isReadOnly_def update_conv' setStatus_def)
  have "map_of (stateFields ?g2) (r, c) = map_of (stateFields g) (r, c)"
    using st by (simp add: update_conv')
  with step1 step2 show ?thesis by blast
qed

lemma scenario_m1_m2_undo_m3:
  assumes fresh: "moveHistory g = []" "currentMoveIndex g = None"
    and m1: "setFieldStatus g r1 c1 s1 = (Inr True, g1)"
    and m2: "setFieldStatus g1 r2 c2 s2 = (Inr True, g2)"
    and un: "undoMove g2 = (b, g3)"
    and m3: "setFieldStatus g3 r3 c3 s3 = (Inr True, g4)"
  shows "b = Inr True \<and> \<not> isPossibleToRedoMove g4 \<and> getAmountMoves g4 = 2"
proof -
  have inv: "cursorConsistent g" using fresh by (simp add: cursorConsistent_def)
  from new_move_history[OF inv m1] fresh
  have h1: "length (moveHistory g1) = 1" "currentMoveIndex g1 = Some 0"
    by (auto simp: committedMoves_def)
  have inv1: "cursorConsistent g1"
    using setFieldStatus_inv[OF inv, of r1 c1 s1] m1 by simp
  from new_move_history[OF inv1 m2] h1
  have h2: "length (moveHistory g2) = 2" "currentMoveIndex g2 = Some 1"
    by (auto simp: committedMoves_def)
  have inv2: "cursorConsistent g2"
    using setFieldStatus_inv[OF inv1, of r2 c2 s2] m2 by simp
  from undo_then_redo[OF inv1 m2] un have b: "b = Inr True" by auto
  have h3: "length (moveHistory g3) = 2"
    using un h2 undoMove_history[of g2] by simp
  have "currentMoveIndex (snd (undoMove g2)) = Some 0"
    using h2 by (simp add: undoMove_def isPossibleToUndoMove_def getMoveFromHistoryAsCopy_def
        calcNextCurrentMoveIndex_def changeCurrentMoveIndex_def)
  then have c3: "currentMoveIndex g3 = Some 0" using un by simp
  have inv3: "cursorConsistent g3" using undoMove_inv[OF inv2] un by simp
  from new_move_history[OF inv3 m3] h3 c3
  have "length (moveHistory g4) = 2" "currentMoveIndex g4 = Some 1"
    by (auto simp: committedMoves_def)
  then show ?thesis using b
    by (simp add: isPossibleToRedoMove_def getMoveFromHistoryAsCopy_def
          calcNextCurrentMoveIndex_def getAmountMoves_def)
qed

section \<open>Lemmas on resetting\<close>

lemma reset_reset: "reset (reset st) = reset st"
  by (simp add: reset_def setStatus_def)

lemma resetGame_idem: "resetGame (resetGame g) = resetGame g"
  by (simp add: resetGame_def reset_reset case_prod_unfold comp_def)

lemma map_of_reset:
  "map_of (map (\<lambda>(fieldKey, field). (fieldKey, reset field)) fs) k =
     map_option reset (map_of fs k)"
  by (induction fs) auto

lemma getField_resetGame:
  "getField (resetGame g) r c =
     map_sum id (\<lambda>field. KakurasuField (reset (state field)) r c) (getField g r c)"
  by (simp add: getField_def resetGame_def map_of_reset split: option.splits)


section \<open>Lemmas on the generator configuration\<close>

lemma clampRowAmounts_range:
  "0 \<le> amountMinimumInRow (clampRowAmounts config) \<and>
   amountMinimumInRow (clampRowAmounts config) \<le> amountMaximumInRow (clampRowAmounts config) \<and>
   amountMaximumInRow (clampRowAmounts config) \<le> of_nat (rows config)"
  by (simp add: clampRowAmounts_def Let_def)

lemma clampColumnAmounts_range:
  "0 \<le> amountMinimumInColumn (clampColumnAmounts config) \<and>
   amountMinimumInColumn (clampColumnAmounts config)
     \<le> amountMaximumInColumn (clampColumnAmounts config) \<and>
   amountMaximumInColumn (clampColumnAmounts config) \<le> of_nat (columns config)"
  by (simp add: clampColumnAmounts_def Let_def)

lemma clampColumnAmounts_other [simp]:
  "rows (clampColumnAmounts config) = rows config"
  "columns (clampColumnAmounts config) = columns config"
  "amountMinimumInRow (clampColumnAmounts config) = amountMinimumInRow config"
  "amountMaximumInRow (clampColumnAmounts config) = amountMaximumInRow config"
  by (simp_all add: clampColumnAmounts_def Let_def)

lemma clampRowAmounts_other [simp]:
  "rows (clampRowAmounts config) = rows config"
  "columns (clampRowAmounts config) = columns config"
  "amountMinimumInColumn (clampRowAmounts config) = amountMinimumInColumn config"
  "amountMaximumInColumn (clampRowAmounts config) = amountMaximumInColumn config"
  by (simp_all add: clampRowAmounts_def Let_def)

text \<open>
  What holds of the normalised amounts for every configuration: each lies between 0
  and the count of its axis, and the maximum is not below the minimum.
\<close>

lemma normalizeConfig_range:
  "0 \<le> amountMinimumInRow (normalizeConfig given) \<and>
   amountMinimumInRow (normalizeConfig given) \<le> amountMaximumInRow (normalizeConfig given) \<and>
   amountMaximumInRow (normalizeConfig given) \<le> of_nat (rows (normalizeConfig given)) \<and>
   0 \<le> amountMinimumInColumn (normalizeConfig given) \<and>
   amountMinimumInColumn (normalizeConfig given)
     \<le> amountMaximumInColumn (normalizeConfig given) \<and>
   amountMaximumInColumn (normalizeConfig given) \<le> of_nat (columns (normalizeConfig given))"
  using clampRowAmounts_range[of "configDefaults given"]
        clampColumnAmounts_range[of "clampRowAmounts (configDefaults given)"]
  by (simp add: normalizeConfig_def configClamp_def)

text \<open>
  A minimum above the maximum is repaired by raising the maximum: after the clamping
  the two are equal.
\<close>

lemma clampRowAmounts_raises_maximum:
  "amountMaximumInRow config < amountMinimumInRow config \<Longrightarrow>
   amountMaximumInRow (clampRowAmounts config) = amountMinimumInRow (clampRowAmounts config)"
  by (simp add: clampRowAmounts_def Let_def)

lemma clampColumnAmounts_raises_maximum:
  "amountMaximumInColumn config < amountMinimumInColumn config \<Longrightarrow>
   amountMaximumInColumn (clampColumnAmounts config)
     = amountMinimumInColumn (clampColumnAmounts config)"
  by (simp add: clampColumnAmounts_def Let_def)

section \<open>Lemmas on construction\<close>

text \<open>Loading the meta information leaves \<^verbatim>\<open>this.state\<close> as it is.\<close>

lemma loadAmounts_state [simp]:
  "moveHistory (loadFiledMetaInformationsAmountRowsAndColumns g) = moveHistory g"
  "currentMoveIndex (loadFiledMetaInformationsAmountRowsAndColumns g) = currentMoveIndex g"
  "stateFields (loadFiledMetaInformationsAmountRowsAndColumns g) = stateFields g"
  by (simp_all add: loadFiledMetaInformationsAmountRowsAndColumns_def Let_def)

lemma loadContraintsForFields_state:
  assumes "loadFieldMetaInformationsContraintsForFields g forRow index = Inr g1"
  shows "moveHistory g1 = moveHistory g \<and> currentMoveIndex g1 = currentMoveIndex g \<and>
         stateFields g1 = stateFields g"
  using assms
  by (auto simp: loadFieldMetaInformationsContraintsForFields_def Let_def
        split: sum.splits if_splits)

lemma loadConstraintsLoop_state:
  "loadConstraintsLoop g forRow indexes = Inr g1 \<Longrightarrow>
   moveHistory g1 = moveHistory g \<and> currentMoveIndex g1 = currentMoveIndex g \<and>
   stateFields g1 = stateFields g"
proof (induction indexes arbitrary: g)
  case Nil
  then show ?case by simp
next
  case (Cons i rest)
  from Cons.prems obtain g' where
    step: "loadFieldMetaInformationsContraintsForFields g forRow i = Inr g'"
    and tail: "loadConstraintsLoop g' forRow rest = Inr g1"
    by (auto split: sum.splits)
  from Cons.IH[OF tail] loadContraintsForFields_state[OF step]
  show ?case by simp
qed

lemma loadFieldMetaInformations_state:
  assumes "loadFieldMetaInformations g = Inr g1"
  shows "moveHistory g1 = moveHistory g \<and> currentMoveIndex g1 = currentMoveIndex g \<and>
         stateFields g1 = stateFields g"
proof -
  let ?g0 = "(loadFiledMetaInformationsAmountRowsAndColumns g)
               \<lparr>contraintsRows := [], contraintsColumns := []\<rparr>"
  from assms obtain g' where
    rows: "loadConstraintsLoop ?g0 True [0 ..< getAmountRows ?g0] = Inr g'"
    and cols: "loadConstraintsLoop g' False [0 ..< getAmountColumns g'] = Inr g1"
    by (auto simp: loadFieldMetaInformations_def loadFieldMetaInformationsContraints_def
          loadFieldMetaInformationsConstraintsForRowColumn_def split: sum.splits)
  from loadConstraintsLoop_state[OF rows] loadConstraintsLoop_state[OF cols]
  show ?thesis by simp
qed

lemma constructor_cursor:
  assumes "constructor snapshot rnd = Inr g"
  shows "moveHistory g = (case snapshotMoveHistory snapshot of None \<Rightarrow> [] | Some h \<Rightarrow> h)"
    and "currentMoveIndex g =
      (case snapshotCurrentMoveIndex snapshot of
         Some i \<Rightarrow>
           if i = 0 \<and> moveHistory g \<noteq> [] then Some (int (length (moveHistory g)) - 1)
           else if i = 0 then None else Some i
       | None \<Rightarrow>
           if moveHistory g \<noteq> [] then Some (int (length (moveHistory g)) - 1) else None)"
proof -
  define h where "h = (case snapshotMoveHistory snapshot of None \<Rightarrow> [] | Some h \<Rightarrow> h)"
  define c0 where "c0 = (case snapshotCurrentMoveIndex snapshot of
                           None \<Rightarrow> None | Some i \<Rightarrow> if i = 0 then None else Some i)"
  define c1 where "c1 = (if (c0 = None \<or> c0 = Some 0) \<and> length h > 0
                         then Some (int (length h) - 1) else c0)"
  define src where "src = (case snapshotFields snapshot of
                             None \<Rightarrow> map_sum id fst (generateLevel None rnd)
                           | Some fs \<Rightarrow> Inr fs)"
  have unfolded: "constructor snapshot rnd =
      (case src of
         Inl e \<Rightarrow> Inl e
       | Inr fs \<Rightarrow>
           loadFieldMetaInformations
             \<lparr>moveHistory = h, currentMoveIndex = c1,
              stateFields = foldl (\<lambda>acc (fieldKey, fieldJSON).
                                     AList.update fieldKey fieldJSON acc) [] fs,
              amountRows = 0, amountColumns = 0,
              contraintsRows = [], contraintsColumns = []\<rparr>)"
    unfolding constructor_def Let_def h_def c0_def c1_def src_def
      CLEANVALUE_MOVEHISTORY_def CLEANVALUE_CURRENTMOVEINDEX_def
    by (rule refl)
  from assms unfolded obtain fs where
    "loadFieldMetaInformations
       \<lparr>moveHistory = h, currentMoveIndex = c1,
        stateFields = foldl (\<lambda>acc (fieldKey, fieldJSON).
                               AList.update fieldKey fieldJSON acc) [] fs,
        amountRows = 0, amountColumns = 0,
        contraintsRows = [], contraintsColumns = []\<rparr> = Inr g"
    by (cases src) simp_all
  from loadFieldMetaInformations_state[OF this]
  have hg: "moveHistory g = h" and cg: "currentMoveIndex g = c1" by simp_all
  from hg show "moveHistory g = (case snapshotMoveHistory snapshot of None \<Rightarrow> [] | Some h \<Rightarrow> h)"
    by (simp add: h_def)
  from cg hg show "currentMoveIndex g =
      (case snapshotCurrentMoveIndex snapshot of
         Some i \<Rightarrow>
           if i = 0 \<and> moveHistory g \<noteq> [] then Some (int (length (moveHistory g)) - 1)
           else if i = 0 then None else Some i
       | None \<Rightarrow>
           if moveHistory g \<noteq> [] then Some (int (length (moveHistory g)) - 1) else None)"
    by (simp add: c1_def c0_def split: option.splits)
qed

text \<open>
  A snapshot whose cursor is \<^verbatim>\<open>null\<close> or an index into its history is loaded as a
  game that satisfies the cursor-history invariant.
\<close>

lemma constructor_inv:
  assumes "constructor snapshot rnd = Inr g" and "snapshotConsistent snapshot"
  shows "cursorConsistent g"
  using constructor_cursor[OF assms(1)] assms(2)
  by (auto simp: cursorConsistent_def snapshotConsistent_def split: option.splits if_splits)

section \<open>Reachable games satisfy the invariant\<close>

lemma changeActiveStatus_inv:
  "cursorConsistent g \<Longrightarrow> cursorConsistent (snd (changeActiveStatus g r c))"
  by (simp add: changeActiveStatus_def setFieldActive_def setFieldClear_def setFieldStatus_inv
        split: sum.splits)

lemma changeFlagStatus_inv:
  "cursorConsistent g \<Longrightarrow> cursorConsistent (snd (changeFlagStatus g r c))"
  by (simp add: changeFlagStatus_def setFieldFlagged_def setFieldClear_def setFieldStatus_inv
        split: sum.splits)

lemma reachable_cursorConsistent: "reachable g \<Longrightarrow> cursorConsistent g"
proof (induction rule: reachable.induct)
  case (reachable_constructed snapshot rnd g)
  then show ?case by (rule constructor_inv)
next
  case (reachable_setFieldActive g r c)
  then show ?case by (simp add: setFieldActive_def setFieldStatus_inv)
next
  case (reachable_setFieldFlagged g r c)
  then show ?case by (simp add: setFieldFlagged_def setFieldStatus_inv)
next
  case (reachable_setFieldClear g r c)
  then show ?case by (simp add: setFieldClear_def setFieldStatus_inv)
next
  case (reachable_changeActiveStatus g r c)
  then show ?case by (simp add: changeActiveStatus_inv)
next
  case (reachable_changeFlagStatus g r c)
  then show ?case by (simp add: changeFlagStatus_inv)
next
  case (reachable_undoMove g)
  then show ?case by (simp add: undoMove_inv)
next
  case (reachable_redoMove g)
  then show ?case by (simp add: redoMove_inv)
next
  case (reachable_resetGame g)
  then show ?case by (simp add: resetGame_inv)
qed

section \<open>The example games are games of the program\<close>

lemma exampleGame_constructed:
  "constructor \<lparr>snapshotMoveHistory = None, snapshotCurrentMoveIndex = None,
                snapshotFields = Some exampleFields\<rparr> rnd = Inr exampleGame"
  by code_simp

lemma exampleGame_reachable: "reachable exampleGame"
proof -
  have "snapshotConsistent \<lparr>snapshotMoveHistory = None, snapshotCurrentMoveIndex = None,
                             snapshotFields = Some exampleFields\<rparr>"
    by (simp add: snapshotConsistent_def)
  with exampleGame_constructed[of noRandom] show ?thesis
    by (rule reachable_constructed)
qed

lemma playedGame_reached:
  "snd (undoMove (snd (setFieldFlagged (snd (setFieldActive exampleGame 0 0)) 1 1)))
     = playedGame"
  by code_simp

text \<open>
  The snapshots \<open>savedSnapshot\<close> are exports of a 1 x 1 game: after two moves and one
  undo, and after two moves and two undos.
\<close>

lemma savedSnapshot_exported:
  "map_sum id
     (\<lambda>g. let g1 = snd (setFieldActive g 0 0);
               g2 = snd (setFieldFlagged g1 0 0);
               g3 = snd (undoMove g2);
               g4 = snd (undoMove g3)
           in (asJSON g2, asJSON g3, asJSON g4))
     (constructor \<lparr>snapshotMoveHistory = None, snapshotCurrentMoveIndex = None,
                    snapshotFields = Some [((0, 0), exampleField STATUS_CLEAR False True)]\<rparr>
        noRandom)
   = Inr (savedSnapshot (Some 1) STATUS_FLAGGED, savedSnapshot (Some 0) STATUS_ACTIVE,
          savedSnapshot None STATUS_CLEAR)"
  by code_simp

lemma playedGame_reachable: "reachable playedGame"
proof -
  have "reachable
          (snd (undoMove (snd (setFieldFlagged (snd (setFieldActive exampleGame 0 0)) 1 1))))"
    by (intro reachable_undoMove reachable_setFieldFlagged reachable_setFieldActive
          exampleGame_reachable)
  then show ?thesis by (simp only: playedGame_reached)
qed

section \<open>Claims\<close>

text \<open>
  Claim C1. \<^verbatim>\<open>isGameWon()\<close> is to be true exactly when every row sum and every
  column sum of the Active fields equals its target, the column pass comparing column
  sums with column targets.

  The code does not do this: the loop of \<^verbatim>\<open>_areAllRowColumnContraintsSatisfied\<close>
  passes the literal \<^verbatim>\<open>true\<close> to \<^verbatim>\<open>_isRowColumnConstraintSatisfied\<close>, so the column
  pass checks the rows a second time. On the 3 x 3 puzzle \<open>columnSnapshot\<close>, after
  \<^verbatim>\<open>setFieldActive(0,0)\<close> and \<^verbatim>\<open>setFieldActive(0,1)\<close>, row 0 sums to 1 + 2 = 3, its
  target, and \<^verbatim>\<open>isGameWon()\<close> returns true, while column 0 sums to 1 against the
  target 0 and \<^verbatim>\<open>isColumnConstraintSatisfied(0)\<close> returns false.
\<close>

theorem isGameWon_checks_rows_twice:
  "map_sum id
     (\<lambda>g. let g1 = snd (setFieldActive g 0 0);
               g2 = snd (setFieldActive g1 0 1)
           in (isGameWon g2, isRowConstraintSatisfied g2 0, isColumnConstraintSatisfied g2 0,
               getRowColumnSumValue g2 False 0, getConstraintValueForColumn g2 0))
     (constructor columnSnapshot noRandom)
   = Inr (Inr True, Inr True, Inr False, Inr 1, Some 0)"
  by code_simp

text \<open>
  Claim C2. A game built on a grid generated with \<open>rows = R\<close> and \<open>columns = C\<close> is to
  report \<open>R\<close> rows and \<open>C\<close> columns, and targets that are the weighted sums of the
  solution cells.

  The code does not do this when \<open>R\<close> and \<open>C\<close> differ:
  \<^verbatim>\<open>_loadFiledMetaInformationsAmountRowsAndColumns\<close> reads the column from the first
  component of the key and the row from the second, and compares both maxima with the
  column. For the grid generated with 2 rows and 3 columns (six fields, keys in
  row-major order) the game reports 2 rows and 2 columns, whatever the six fields hold
  (second conjunct); for 3 rows and 2 columns the constructor throws, since the column
  pass asks for the field (0,2).
\<close>

theorem generated_grid_amounts_swapped:
  "map_sum id
     (\<lambda>(fs, rnd).
        (map fst fs,
         map_sum id (\<lambda>g. (getAmountRows g, getAmountColumns g))
           (constructor \<lparr>snapshotMoveHistory = None, snapshotCurrentMoveIndex = None,
                          snapshotFields = Some fs\<rparr> rnd)))
     (generateLevel (Some (emptyConfig\<lparr>givenRows := Some 2, givenColumns := Some 3\<rparr>))
        noRandom)
   = Inr ([(0, 0), (0, 1), (0, 2), (1, 0), (1, 1), (1, 2)], Inr (2, 2))
   \<and>
   map_sum id (\<lambda>g. (getAmountRows g, getAmountColumns g))
     (constructor
        \<lparr>snapshotMoveHistory = None, snapshotCurrentMoveIndex = None,
         snapshotFields = Some [((0, 0), f00), ((0, 1), f01), ((0, 2), f02),
                                ((1, 0), f10), ((1, 1), f11), ((1, 2), f12)]\<rparr> rnd)
   = Inr (2, 2)
   \<and>
   map_sum id
     (\<lambda>(fs, rnd).
        (map fst fs,
         map_sum id (\<lambda>g. (getAmountRows g, getAmountColumns g))
           (constructor \<lparr>snapshotMoveHistory = None, snapshotCurrentMoveIndex = None,
                          snapshotFields = Some fs\<rparr> rnd)))
     (generateLevel (Some (emptyConfig\<lparr>givenRows := Some 3, givenColumns := Some 2\<rparr>))
        noRandom)
   = Inr ([(0, 0), (0, 1), (1, 0), (1, 1), (2, 0), (2, 1)], Inl TypeError)"
proof (intro conjI)
  show "map_sum id
     (\<lambda>(fs, rnd).
        (map fst fs,
         map_sum id (\<lambda>g. (getAmountRows g, getAmountColumns g))
           (constructor \<lparr>snapshotMoveHistory = None, snapshotCurrentMoveIndex = None,
                          snapshotFields = Some fs\<rparr> rnd)))
     (generateLevel (Some (emptyConfig\<lparr>givenRows := Some 2, givenColumns := Some 3\<rparr>))
        noRandom)
   = Inr ([(0, 0), (0, 1), (0, 2), (1, 0), (1, 1), (1, 2)], Inr (2, 2))"
    by code_simp
  show "map_sum id (\<lambda>g. (getAmountRows g, getAmountColumns g))
     (constructor
        \<lparr>snapshotMoveHistory = None, snapshotCurrentMoveIndex = None,
         snapshotFields = Some [((0, 0), f00), ((0, 1), f01), ((0, 2), f02),
                                ((1, 0), f10), ((1, 1), f11), ((1, 2), f12)]\<rparr> rnd)
   = Inr (2, 2)"
    by (simp add: constructor_def loadFieldMetaInformations_def
          loadFiledMetaInformationsAmountRowsAndColumns_def highestKeyStep_def falsy_def
          lessThanKey_def Let_def loadFieldMetaInformationsContraints_def
          loadFieldMetaInformationsConstraintsForRowColumn_def getAmountRows_def
          getAmountColumns_def upt_rec[of 0] upt_rec[of 1]
          loadFieldMetaInformationsContraintsForFields_def getFieldsInRowColumn_def
          getAmountRowColumns_def getField_def getFieldKey_def CLEANVALUE_MOVEHISTORY_def
          CLEANVALUE_CURRENTMOVEINDEX_def)
  show "map_sum id
     (\<lambda>(fs, rnd).
        (map fst fs,
         map_sum id (\<lambda>g. (getAmountRows g, getAmountColumns g))
           (constructor \<lparr>snapshotMoveHistory = None, snapshotCurrentMoveIndex = None,
                          snapshotFields = Some fs\<rparr> rnd)))
     (generateLevel (Some (emptyConfig\<lparr>givenRows := Some 3, givenColumns := Some 2\<rparr>))
        noRandom)
   = Inr ([(0, 0), (0, 1), (1, 0), (1, 1), (2, 0), (2, 1)], Inl TypeError)"
    by code_simp
qed

text \<open>
  Claim C3, as amended. At construction a \<^verbatim>\<open>currentMoveIndex\<close> other than
  \<^verbatim>\<open>null\<close> and 0 is read as the cursor index. A \<^verbatim>\<open>currentMoveIndex\<close> of
  \<^verbatim>\<open>null\<close>, or an absent one, is read as the Empty cursor when the move history is
  empty, and as the index of the last recorded move when it is not: the constructor
  tests for this case. (What a \<^verbatim>\<open>currentMoveIndex\<close> of 0 is read as is left open
  here; the counterexample below shows what the code does with it.)
\<close>

theorem constructor_reads_cursor:
  assumes "constructor snapshot rnd = Inr g"
    and "snapshotCurrentMoveIndex snapshot \<noteq> Some 0"
  shows "currentMoveIndex g =
           (case snapshotCurrentMoveIndex snapshot of
              Some i \<Rightarrow> Some i
            | None \<Rightarrow>
                (case snapshotMoveHistory snapshot of
                   None \<Rightarrow> None
                 | Some h \<Rightarrow> if h = [] then None else Some (int (length h) - 1)))"
  using constructor_cursor[OF assms(1)] assms(2)
  by (auto split: option.splits)

text \<open>
  Witness for C3: the snapshot with two recorded moves and the cursor 1 is loaded with
  the cursor 1.
\<close>

theorem constructor_reads_cursor_witness:
  "constructor (savedSnapshot (Some 1) STATUS_FLAGGED) noRandom =
     Inr \<lparr>moveHistory =
            [\<lparr>row = 0, column = 0, previousStatus = STATUS_CLEAR,
               nextStatus = STATUS_ACTIVE\<rparr>,
             \<lparr>row = 0, column = 0, previousStatus = STATUS_ACTIVE,
               nextStatus = STATUS_FLAGGED\<rparr>],
          currentMoveIndex = Some 1,
          stateFields = [((0, 0), exampleField STATUS_FLAGGED False True)],
          amountRows = 1, amountColumns = 1,
          contraintsRows = [(0, 1)], contraintsColumns = [(0, 1)]\<rparr> \<and>
   snapshotCurrentMoveIndex (savedSnapshot (Some 1) STATUS_FLAGGED) \<noteq> Some 0 \<and>
   snapshotCurrentMoveIndex (savedSnapshot (Some 1) STATUS_FLAGGED) = Some 1"
proof -
  let ?g = "\<lparr>moveHistory =
            [\<lparr>row = 0, column = 0, previousStatus = STATUS_CLEAR,
               nextStatus = STATUS_ACTIVE\<rparr>,
             \<lparr>row = 0, column = 0, previousStatus = STATUS_ACTIVE,
               nextStatus = STATUS_FLAGGED\<rparr>],
          currentMoveIndex = Some 1,
          stateFields = [((0, 0), exampleField STATUS_FLAGGED False True)],
          amountRows = 1, amountColumns = 1,
          contraintsRows = [(0, 1)], contraintsColumns = [(0, 1)]\<rparr>"
  have built: "constructor (savedSnapshot (Some 1) STATUS_FLAGGED) noRandom = Inr ?g"
    by code_simp
  have given: "snapshotCurrentMoveIndex (savedSnapshot (Some 1) STATUS_FLAGGED) \<noteq> Some 0"
    by code_simp
  have cur: "snapshotCurrentMoveIndex (savedSnapshot (Some 1) STATUS_FLAGGED) = Some 1"
    by code_simp
  from constructor_reads_cursor[OF built given] cur
  have "currentMoveIndex ?g = Some 1" by simp
  with built given cur show ?thesis by simp
qed

text \<open>
  Counterexample for C3 as stated. The snapshot with two recorded moves and the cursor
  \<^verbatim>\<open>null\<close> (every move undone) is loaded with the cursor 1, not Empty. The snapshot
  with the cursor 0 (the second move undone) is loaded with the cursor 1 as well:
  \<^verbatim>\<open>state.currentMoveIndex || null\<close> takes 0 for \<^verbatim>\<open>null\<close>.
\<close>

theorem constructor_null_cursor_counterexample:
  "constructor (savedSnapshot None STATUS_CLEAR) noRandom =
     Inr \<lparr>moveHistory =
            [\<lparr>row = 0, column = 0, previousStatus = STATUS_CLEAR,
               nextStatus = STATUS_ACTIVE\<rparr>,
             \<lparr>row = 0, column = 0, previousStatus = STATUS_ACTIVE,
               nextStatus = STATUS_FLAGGED\<rparr>],
          currentMoveIndex = Some 1,
          stateFields = [((0, 0), exampleField STATUS_CLEAR False True)],
          amountRows = 1, amountColumns = 1,
          contraintsRows = [(0, 1)], contraintsColumns = [(0, 1)]\<rparr>
   \<and>
   constructor (savedSnapshot (Some 0) STATUS_ACTIVE) noRandom =
     Inr \<lparr>moveHistory =
            [\<lparr>row = 0, column = 0, previousStatus = STATUS_CLEAR,
               nextStatus = STATUS_ACTIVE\<rparr>,
             \<lparr>row = 0, column = 0, previousStatus = STATUS_ACTIVE,
               nextStatus = STATUS_FLAGGED\<rparr>],
          currentMoveIndex = Some 1,
          stateFields = [((0, 0), exampleField STATUS_ACTIVE False True)],
          amountRows = 1, amountColumns = 1,
          contraintsRows = [(0, 1)], contraintsColumns = [(0, 1)]\<rparr>"
  by code_simp

text \<open>
  Claim C4. Recording a new move truncates the history to the moves up to and including
  the cursor position, appends the new move and advances the cursor by one (from Empty
  to index 0). In particular, on a new game, after the moves m1 and m2, an undo and the
  move m3, no redo is possible and the history has length 2.

  A move is recorded by \<^verbatim>\<open>_setFieldStatus\<close>, which the setters
  \<^verbatim>\<open>setFieldActive\<close>, \<^verbatim>\<open>setFieldFlagged\<close> and \<^verbatim>\<open>setFieldClear\<close> call with their
  status; the outcome \<open>Inr True\<close> says that the move was applied.
\<close>

theorem new_move_truncates_history:
  "(cursorConsistent g \<and> setFieldStatus g r c s = (Inr True, g1) \<longrightarrow>
      (\<exists>field. getField g r c = Inr field \<and>
         moveHistory g1 = take (committedMoves g) (moveHistory g) @
           [\<lparr>row = r, column = c, previousStatus = getStatus field, nextStatus = s\<rparr>]) \<and>
      currentMoveIndex g1 =
        Some (case currentMoveIndex g of None \<Rightarrow> 0 | Some i \<Rightarrow> i + 1))
   \<and>
   (moveHistory h = [] \<and> currentMoveIndex h = None \<and>
    setFieldStatus h r1 c1 s1 = (Inr True, h1) \<and>
    setFieldStatus h1 r2 c2 s2 = (Inr True, h2) \<and>
    undoMove h2 = (b, h3) \<and>
    setFieldStatus h3 r3 c3 s3 = (Inr True, h4) \<longrightarrow>
      b = Inr True \<and> \<not> isPossibleToRedoMove h4 \<and> getAmountMoves h4 = 2)"
proof (intro conjI impI)
  assume a: "cursorConsistent g \<and> setFieldStatus g r c s = (Inr True, g1)"
  then have inv: "cursorConsistent g" and ok: "setFieldStatus g r c s = (Inr True, g1)"
    by simp_all
  from new_move_history[OF inv ok]
  show "\<exists>field. getField g r c = Inr field \<and>
         moveHistory g1 = take (committedMoves g) (moveHistory g) @
           [\<lparr>row = r, column = c, previousStatus = getStatus field, nextStatus = s\<rparr>]"
    by simp
  from new_move_history[OF inv ok] inv
  show "currentMoveIndex g1 =
          Some (case currentMoveIndex g of None \<Rightarrow> 0 | Some i \<Rightarrow> i + 1)"
    by (auto simp: committedMoves_def cursorConsistent_def split: option.splits)
next
  assume "moveHistory h = [] \<and> currentMoveIndex h = None \<and>
    setFieldStatus h r1 c1 s1 = (Inr True, h1) \<and>
    setFieldStatus h1 r2 c2 s2 = (Inr True, h2) \<and>
    undoMove h2 = (b, h3) \<and>
    setFieldStatus h3 r3 c3 s3 = (Inr True, h4)"
  then have "b = Inr True \<and> \<not> isPossibleToRedoMove h4 \<and> getAmountMoves h4 = 2"
    using scenario_m1_m2_undo_m3[of h r1 c1 s1 h1 r2 c2 s2 h2 b h3 r3 c3 s3 h4] by blast
  then show "b = Inr True" and "\<not> isPossibleToRedoMove h4" and "getAmountMoves h4 = 2"
    by simp_all
qed

text \<open>
  Witness for C4: on \<open>playedGame\<close> (two moves recorded, one undone) the new move
  \<^verbatim>\<open>setFieldActive(1,0)\<close> replaces the undone move; on \<open>exampleGame\<close> the moves
  \<^verbatim>\<open>setFieldActive(0,0)\<close>, \<^verbatim>\<open>setFieldFlagged(1,1)\<close>, an undo and
  \<^verbatim>\<open>setFieldActive(1,0)\<close> leave a history of length 2 and nothing to redo.
\<close>

theorem new_move_truncates_history_witness:
  "cursorConsistent playedGame \<and>
   fst (setFieldStatus playedGame 1 0 STATUS_ACTIVE) = Inr True \<and>
   moveHistory (snd (setFieldStatus playedGame 1 0 STATUS_ACTIVE)) =
     [\<lparr>row = 0, column = 0, previousStatus = STATUS_CLEAR, nextStatus = STATUS_ACTIVE\<rparr>,
      \<lparr>row = 1, column = 0, previousStatus = STATUS_CLEAR, nextStatus = STATUS_ACTIVE\<rparr>] \<and>
   currentMoveIndex (snd (setFieldStatus playedGame 1 0 STATUS_ACTIVE)) = Some 1 \<and>
   moveHistory exampleGame = [] \<and> currentMoveIndex exampleGame = None \<and>
   fst (setFieldStatus exampleGame 0 0 STATUS_ACTIVE) = Inr True \<and>
   fst (setFieldStatus (snd (setFieldStatus exampleGame 0 0 STATUS_ACTIVE)) 1 1 STATUS_FLAGGED)
     = Inr True \<and>
   fst (setFieldStatus playedGame 1 0 STATUS_ACTIVE) = Inr True \<and>
   \<not> isPossibleToRedoMove (snd (setFieldStatus playedGame 1 0 STATUS_ACTIVE)) \<and>
   getAmountMoves (snd (setFieldStatus playedGame 1 0 STATUS_ACTIVE)) = 2"
proof -
  let ?g1 = "snd (setFieldStatus playedGame 1 0 STATUS_ACTIVE)"
  let ?h1 = "snd (setFieldStatus exampleGame 0 0 STATUS_ACTIVE)"
  let ?h2 = "snd (setFieldStatus ?h1 1 1 STATUS_FLAGGED)"
  have inv: "cursorConsistent playedGame" by code_simp
  have ok: "setFieldStatus playedGame 1 0 STATUS_ACTIVE = (Inr True, ?g1)" by code_simp
  have fresh: "moveHistory exampleGame = [] \<and> currentMoveIndex exampleGame = None"
    by code_simp
  have m1: "setFieldStatus exampleGame 0 0 STATUS_ACTIVE = (Inr True, ?h1)" by code_simp
  have m2: "setFieldStatus ?h1 1 1 STATUS_FLAGGED = (Inr True, ?h2)" by code_simp
  have un: "undoMove ?h2 = (Inr True, playedGame)" by code_simp
  have field: "getField playedGame 1 0 = Inr (KakurasuField (exampleField STATUS_CLEAR False False) 1 0)"
    by code_simp
  have taken: "take (committedMoves playedGame) (moveHistory playedGame) =
     [\<lparr>row = 0, column = 0, previousStatus = STATUS_CLEAR, nextStatus = STATUS_ACTIVE\<rparr>]"
    by code_simp
  have cur: "currentMoveIndex playedGame = Some 0" by code_simp
  note inst = new_move_truncates_history[of playedGame 1 0 STATUS_ACTIVE ?g1
      exampleGame 0 0 STATUS_ACTIVE ?h1 1 1 STATUS_FLAGGED ?h2 "Inr True" playedGame
      1 0 STATUS_ACTIVE ?g1]
  from inst inv ok fresh m1 m2 un
  have concl: "(\<exists>field. getField playedGame 1 0 = Inr field \<and>
         moveHistory ?g1 = take (committedMoves playedGame) (moveHistory playedGame) @
           [\<lparr>row = 1, column = 0, previousStatus = getStatus field,
              nextStatus = STATUS_ACTIVE\<rparr>]) \<and>
      currentMoveIndex ?g1 =
        Some (case currentMoveIndex playedGame of None \<Rightarrow> 0 | Some i \<Rightarrow> i + 1) \<and>
      \<not> isPossibleToRedoMove ?g1 \<and> getAmountMoves ?g1 = 2"
    by blast
  then have "moveHistory ?g1 =
     [\<lparr>row = 0, column = 0, previousStatus = STATUS_CLEAR, nextStatus = STATUS_ACTIVE\<rparr>,
      \<lparr>row = 1, column = 0, previousStatus = STATUS_CLEAR, nextStatus = STATUS_ACTIVE\<rparr>]"
    using field taken by (auto simp: getStatus_def exampleField_def)
  moreover from concl cur have "currentMoveIndex ?g1 = Some 1" by simp
  moreover have "fst (setFieldStatus playedGame 1 0 STATUS_ACTIVE) = Inr True"
    by code_simp
  moreover have "fst (setFieldStatus exampleGame 0 0 STATUS_ACTIVE) = Inr True"
    by code_simp
  moreover have "fst (setFieldStatus ?h1 1 1 STATUS_FLAGGED) = Inr True"
    by code_simp
  ultimately show ?thesis
    using inv fresh concl by simp
qed

text \<open>
  Claim C5. For every reachable game and every move that was applied (the target field
  exists and is not read-only), \<^verbatim>\<open>undoMove()\<close> followed by \<^verbatim>\<open>redoMove()\<close> both
  succeed and leave the affected field and the cursor as they were right after the
  move; the whole game is as it was then. In between, the undo has put the field back
  to what it was before the move.

  The proof uses of the reachable game only that it satisfies the cursor-history
  invariant (lemma \<open>undo_then_redo\<close>).
\<close>

theorem undo_redo_roundtrip:
  assumes "reachable g" and "setFieldStatus g r c s = (Inr True, g1)"
  shows "\<exists>g2 g3. undoMove g1 = (Inr True, g2) \<and> redoMove g2 = (Inr True, g3) \<and>
           getField g2 r c = getField g r c \<and>
           getField g3 r c = getField g1 r c \<and>
           currentMoveIndex g3 = currentMoveIndex g1 \<and> g3 = g1"
proof -
  from assms(1) have "cursorConsistent g" by (rule reachable_cursorConsistent)
  from undo_then_redo[OF this assms(2)] obtain g2 where
    "undoMove g1 = (Inr True, g2)" and "redoMove g2 = (Inr True, g1)"
    and "map_of (stateFields g2) (r, c) = map_of (stateFields g) (r, c)"
    by blast
  then show ?thesis by (auto simp: getField_def getFieldKey_def)
qed

text \<open>
  Witness for C5: the move \<^verbatim>\<open>setFieldActive(1,0)\<close> on \<open>playedGame\<close>.
\<close>

theorem undo_redo_roundtrip_witness:
  "reachable playedGame \<and>
   fst (setFieldStatus playedGame 1 0 STATUS_ACTIVE) = Inr True \<and>
   (\<exists>g2. undoMove (snd (setFieldStatus playedGame 1 0 STATUS_ACTIVE)) = (Inr True, g2) \<and>
         getField g2 1 0 = getField playedGame 1 0 \<and>
         redoMove g2 = (Inr True, snd (setFieldStatus playedGame 1 0 STATUS_ACTIVE)))"
proof -
  let ?g1 = "snd (setFieldStatus playedGame 1 0 STATUS_ACTIVE)"
  have ok: "setFieldStatus playedGame 1 0 STATUS_ACTIVE = (Inr True, ?g1)" by code_simp
  have applied: "fst (setFieldStatus playedGame 1 0 STATUS_ACTIVE) = Inr True" by code_simp
  from undo_redo_roundtrip[OF playedGame_reachable ok]
  have "\<exists>g2. undoMove ?g1 = (Inr True, g2) \<and> getField g2 1 0 = getField playedGame 1 0 \<and>
             redoMove g2 = (Inr True, ?g1)"
    by blast
  with playedGame_reachable applied show ?thesis by blast
qed

text \<open>
  Claim C6. For a target field that exists, each of \<^verbatim>\<open>setFieldActive\<close>,
  \<^verbatim>\<open>setFieldFlagged\<close> and \<^verbatim>\<open>setFieldClear\<close> returns false if and only if the field is
  read-only (and true otherwise), and when it returns false the history, the cursor and
  the whole game are unchanged.
\<close>

theorem setField_fails_iff_readOnly:
  assumes "getField g r c = Inr field"
  shows "\<forall>setField \<in> {setFieldActive, setFieldFlagged, setFieldClear}.
           (fst (setField g r c) = Inr False \<longleftrightarrow> isReadOnly field) \<and>
           (fst (setField g r c) = Inr True \<longleftrightarrow> \<not> isReadOnly field) \<and>
           (fst (setField g r c) = Inr False \<longrightarrow>
              moveHistory (snd (setField g r c)) = moveHistory g \<and>
              currentMoveIndex (snd (setField g r c)) = currentMoveIndex g \<and>
              snd (setField g r c) = g)"
proof -
  have "(fst (setFieldStatus g r c s) = Inr False \<longleftrightarrow> isReadOnly field) \<and>
        (fst (setFieldStatus g r c s) = Inr True \<longleftrightarrow> \<not> isReadOnly field) \<and>
        (fst (setFieldStatus g r c s) = Inr False \<longrightarrow> snd (setFieldStatus g r c s) = g)" for s
    using assms
    by (cases "isReadOnly field")
       (simp_all add: setFieldStatus_readOnly setFieldStatus_writable)
  then show ?thesis
    by (simp add: setFieldActive_def setFieldFlagged_def setFieldClear_def)
qed

text \<open>
  Witness for C6: in \<open>exampleGame\<close> the field (0,1) is read-only and the field (0,0)
  is not.
\<close>

theorem setField_fails_iff_readOnly_witness:
  "getField exampleGame 0 1 = Inr (KakurasuField (exampleField STATUS_FLAGGED True False) 0 1) \<and>
   fst (setFieldActive exampleGame 0 1) = Inr False \<and>
   snd (setFieldActive exampleGame 0 1) = exampleGame \<and>
   fst (setFieldClear exampleGame 0 1) = Inr False \<and>
   getField exampleGame 0 0 = Inr (KakurasuField (exampleField STATUS_CLEAR False True) 0 0) \<and>
   fst (setFieldFlagged exampleGame 0 0) = Inr True"
proof -
  have given: "getField exampleGame 0 1 =
      Inr (KakurasuField (exampleField STATUS_FLAGGED True False) 0 1)"
    by code_simp
  have free: "getField exampleGame 0 0 =
      Inr (KakurasuField (exampleField STATUS_CLEAR False True) 0 0)"
    by code_simp
  have ro: "isReadOnly (KakurasuField (exampleField STATUS_FLAGGED True False) 0 1)"
    by code_simp
  have rw: "\<not> isReadOnly (KakurasuField (exampleField STATUS_CLEAR False True) 0 0)"
    by code_simp
  from setField_fails_iff_readOnly[OF given] ro
  have "fst (setFieldActive exampleGame 0 1) = Inr False \<and>
        snd (setFieldActive exampleGame 0 1) = exampleGame \<and>
        fst (setFieldClear exampleGame 0 1) = Inr False"
    by simp
  moreover from setField_fails_iff_readOnly[OF free] rw
  have "fst (setFieldFlagged exampleGame 0 0) = Inr True"
    by simp
  ultimately show ?thesis using given free by simp
qed

text \<open>
  Claim C7. When \<^verbatim>\<open>isPossibleToUndoMove()\<close> is false, \<^verbatim>\<open>undoMove()\<close> returns false
  and leaves the whole game unchanged; when \<^verbatim>\<open>isPossibleToRedoMove()\<close> is false,
  \<^verbatim>\<open>redoMove()\<close> returns false and leaves the whole game unchanged.
\<close>

theorem undo_redo_noop:
  "(\<not> isPossibleToUndoMove g \<longrightarrow> undoMove g = (Inr False, g)) \<and>
   (\<not> isPossibleToRedoMove g \<longrightarrow> redoMove g = (Inr False, g))"
  by (simp add: undoMove_def redoMove_def)

text \<open>
  Witness for C7: the new game \<open>exampleGame\<close> has nothing to undo and nothing to redo.
\<close>

theorem undo_redo_noop_witness:
  "\<not> isPossibleToUndoMove exampleGame \<and> undoMove exampleGame = (Inr False, exampleGame) \<and>
   \<not> isPossibleToRedoMove exampleGame \<and> redoMove exampleGame = (Inr False, exampleGame)"
proof -
  have no_undo: "\<not> isPossibleToUndoMove exampleGame" by code_simp
  have no_redo: "\<not> isPossibleToRedoMove exampleGame" by code_simp
  from undo_redo_noop[of exampleGame] no_undo no_redo show ?thesis by blast
qed

text \<open>
  Claim C8. \<^verbatim>\<open>resetGame()\<close> empties the history and sets the cursor to Empty; it keeps
  the keys of the board; every field keeps its \<^verbatim>\<open>readOnly\<close> and \<^verbatim>\<open>solution\<close> flags, a
  read-only field keeps its status and every other field becomes Clear; and resetting a
  second time changes nothing.
\<close>

theorem resetGame_effect:
  "moveHistory (resetGame g) = [] \<and> currentMoveIndex (resetGame g) = None \<and>
   map fst (stateFields (resetGame g)) = map fst (stateFields g) \<and>
   (\<forall>r c field. getField g r c = Inr field \<longrightarrow>
      (\<exists>field'. getField (resetGame g) r c = Inr field' \<and>
         isReadOnly field' = isReadOnly field \<and> isSolution field' = isSolution field \<and>
         getStatus field' = (if isReadOnly field then getStatus field else STATUS_CLEAR))) \<and>
   resetGame (resetGame g) = resetGame g"
proof -
  have "moveHistory (resetGame g) = []" "currentMoveIndex (resetGame g) = None"
    by (simp_all add: resetGame_def CLEANVALUE_MOVEHISTORY_def CLEANVALUE_CURRENTMOVEINDEX_def)
  moreover have "map fst (stateFields (resetGame g)) = map fst (stateFields g)"
    by (simp add: resetGame_def case_prod_unfold comp_def)
  moreover have "\<exists>field'. getField (resetGame g) r c = Inr field' \<and>
         isReadOnly field' = isReadOnly field \<and> isSolution field' = isSolution field \<and>
         getStatus field' = (if isReadOnly field then getStatus field else STATUS_CLEAR)"
    if "getField g r c = Inr field" for r c field
    using that
    by (simp add: getField_resetGame isReadOnly_def isSolution_def getStatus_def reset_def
          setStatus_def)
  ultimately show ?thesis by (simp add: resetGame_idem)
qed

text \<open>
  Witness for C8: in \<open>playedGame\<close> the field (0,0) is Active and writable, the field
  (0,1) is Flagged and read-only.
\<close>

theorem resetGame_effect_witness:
  "getField playedGame 0 0 = Inr (KakurasuField (exampleField STATUS_ACTIVE False True) 0 0) \<and>
   getField playedGame 0 1 = Inr (KakurasuField (exampleField STATUS_FLAGGED True False) 0 1) \<and>
   (\<exists>field'. getField (resetGame playedGame) 0 0 = Inr field' \<and> \<not> isReadOnly field' \<and>
       isSolution field' \<and> getStatus field' = STATUS_CLEAR) \<and>
   (\<exists>field'. getField (resetGame playedGame) 0 1 = Inr field' \<and> isReadOnly field' \<and>
       \<not> isSolution field' \<and> getStatus field' = STATUS_FLAGGED) \<and>
   moveHistory (resetGame playedGame) = [] \<and> currentMoveIndex (resetGame playedGame) = None"
proof -
  have active: "getField playedGame 0 0 =
      Inr (KakurasuField (exampleField STATUS_ACTIVE False True) 0 0)"
    by code_simp
  have given: "getField playedGame 0 1 =
      Inr (KakurasuField (exampleField STATUS_FLAGGED True False) 0 1)"
    by code_simp
  let ?a = "KakurasuField (exampleField STATUS_ACTIVE False True) 0 0"
  let ?b = "KakurasuField (exampleField STATUS_FLAGGED True False) 0 1"
  from resetGame_effect[of playedGame]
  have eff: "\<forall>r c field. getField playedGame r c = Inr field \<longrightarrow>
      (\<exists>field'. getField (resetGame playedGame) r c = Inr field' \<and>
         isReadOnly field' = isReadOnly field \<and> isSolution field' = isSolution field \<and>
         getStatus field' = (if isReadOnly field then getStatus field else STATUS_CLEAR))"
    and hist: "moveHistory (resetGame playedGame) = []"
    and cur: "currentMoveIndex (resetGame playedGame) = None"
    by blast+
  from eff active
  have "\<exists>field'. getField (resetGame playedGame) 0 0 = Inr field' \<and>
         isReadOnly field' = isReadOnly ?a \<and> isSolution field' = isSolution ?a \<and>
         getStatus field' = (if isReadOnly ?a then getStatus ?a else STATUS_CLEAR)"
    by blast
  then have "\<exists>field'. getField (resetGame playedGame) 0 0 = Inr field' \<and> \<not> isReadOnly field' \<and>
       isSolution field' \<and> getStatus field' = STATUS_CLEAR"
    by (simp add: isReadOnly_def isSolution_def getStatus_def exampleField_def)
  moreover from eff given
  have "\<exists>field'. getField (resetGame playedGame) 0 1 = Inr field' \<and>
         isReadOnly field' = isReadOnly ?b \<and> isSolution field' = isSolution ?b \<and>
         getStatus field' = (if isReadOnly ?b then getStatus ?b else STATUS_CLEAR)"
    by blast
  then have "\<exists>field'. getField (resetGame playedGame) 0 1 = Inr field' \<and> isReadOnly field' \<and>
       \<not> isSolution field' \<and> getStatus field' = STATUS_FLAGGED"
    by (simp add: isReadOnly_def isSolution_def getStatus_def exampleField_def)
  moreover note hist cur
  ultimately show ?thesis using active given by simp
qed

text \<open>
  Claim C9. After normalisation every amount is to lie between 0 and the count of its
  axis, a configured 0 is to stay 0, a minimum above the maximum is to be repaired by
  raising the maximum, and no configuration is rejected.

  The code does not keep a configured 0: \<^verbatim>\<open>config.amountMinimumInRow || 1\<close> and
  \<^verbatim>\<open>config.amountMaximumInRow || config.rows/2\<close> take 0 for an absent value. With 5
  rows, a minimum of 0 and a maximum of 0 the normalised minimum is 1 and the
  normalised maximum 5/2, while a minimum of -1 and a maximum of -1 are both normalised
  to 0 (second conjunct). The rest of the claim holds of the code, see
  \<open>normalizeConfig_range\<close>.
\<close>

theorem normalizeConfig_replaces_zero:
  "normalizeConfig
     (Some (emptyConfig\<lparr>givenRows := Some 5, givenAmountMinimumInRow := Some 0,
                         givenAmountMaximumInRow := Some 0\<rparr>))
   = \<lparr>rows = 5, columns = 5, amountMinimumInRow = 1, amountMaximumInRow = 5 / 2,
      amountMinimumInColumn = 1, amountMaximumInColumn = 5 / 2\<rparr>
   \<and>
   normalizeConfig
     (Some (emptyConfig\<lparr>givenRows := Some 5, givenAmountMinimumInRow := Some (- 1),
                         givenAmountMaximumInRow := Some (- 1)\<rparr>))
   = \<lparr>rows = 5, columns = 5, amountMinimumInRow = 0, amountMaximumInRow = 0,
      amountMinimumInColumn = 1, amountMaximumInColumn = 5 / 2\<rparr>"
  by code_simp

text \<open>
  Claim C10. Every public operation preserves the cursor-history invariant: the three
  setters, \<^verbatim>\<open>undoMove\<close>, \<^verbatim>\<open>redoMove\<close> and \<^verbatim>\<open>resetGame\<close> leave a game whose cursor
  is \<^verbatim>\<open>null\<close> or an index into the history, whatever they return, also when they
  throw; and after a setter has returned true the cursor is the last index of the
  history.
\<close>

theorem cursor_consistency_preserved:
  assumes "cursorConsistent g"
  shows "(\<forall>setField \<in> {setFieldActive, setFieldFlagged, setFieldClear}.
            cursorConsistent (snd (setField g r c)) \<and>
            (fst (setField g r c) = Inr True \<longrightarrow>
               currentMoveIndex (snd (setField g r c)) =
                 Some (int (length (moveHistory (snd (setField g r c)))) - 1))) \<and>
         cursorConsistent (snd (undoMove g)) \<and>
         cursorConsistent (snd (redoMove g)) \<and>
         cursorConsistent (resetGame g)"
  using assms
  by (simp add: setFieldActive_def setFieldFlagged_def setFieldClear_def setFieldStatus_inv
        undoMove_inv redoMove_inv resetGame_inv setFieldStatus_cursor_last)

text \<open>
  Witness for C10: \<open>playedGame\<close> has two recorded moves and the cursor 0; after
  \<^verbatim>\<open>setFieldActive(1,0)\<close> the history has two moves and the cursor is 1.
\<close>

theorem cursor_consistency_preserved_witness:
  "cursorConsistent playedGame \<and>
   fst (setFieldActive playedGame 1 0) = Inr True \<and>
   length (moveHistory (snd (setFieldActive playedGame 1 0))) = 2 \<and>
   currentMoveIndex (snd (setFieldActive playedGame 1 0)) = Some 1 \<and>
   cursorConsistent (snd (setFieldActive playedGame 1 0)) \<and>
   cursorConsistent (snd (undoMove playedGame)) \<and>
   cursorConsistent (snd (redoMove playedGame)) \<and>
   cursorConsistent (resetGame playedGame)"
proof -
  have inv: "cursorConsistent playedGame" by code_simp
  have applied: "fst (setFieldActive playedGame 1 0) = Inr True" by code_simp
  have len: "length (moveHistory (snd (setFieldActive playedGame 1 0))) = 2" by code_simp
  from cursor_consistency_preserved[OF inv, of 1 0] applied len
  show ?thesis using inv by simp
qed

end
